theory Spec2Isabelle
  imports Complex_Main "HOL-Library.Sublist"
begin

section \<open>Data model (types/models.ts, models/Design.ts)\<close>

text \<open>
  The design aggregate of the rocket design backend, embedded shallowly. A TypeScript
  \<open>number\<close> that carries geometry is a rational (the decimal literals of the source are
  read exactly; two occurrences of one literal denote one value in either reading), the
  version counter is an integer (a JavaScript number counts exactly below 2^53), a
  \<open>Date\<close> is a natural number of milliseconds, an
  ObjectId is the string it prints as (24 lower-case hexadecimal digits), and a field
  typed \<open>any\<close> or stored under a non-strict schema is a JSON value. A string is a
  sequence of characters with codes below 256; a JavaScript string with a character
  beyond that is outside the model.
\<close>

type_synonym oid = string
type_synonym date = nat

datatype json =
    JNull
  | JBool bool
  | JNum rat
  | JStr string
  | JArr "json list"
  | JObj "(string \<times> json) list"

datatype CuttingMethod = DIGITAL | HAND | HYBRID | LASER | DIE

datatype ComponentType =
    NOSECONE_SHROUD | PAYLOAD_SHROUD | MAIN_BODY_SHROUD | BULKHEAD | SPAR | FIN
  | NOSECONE_SUPPORT | OTHER

datatype SectionType = NOSECONE | PAYLOAD_BAY | MAIN_BODY

datatype FinType = MAIN | UPPER

datatype ConnectionType = FIXED | SEPARABLE | FUNCTIONAL

datatype MechanismType = TAB_SLOT | THREADED | FRICTION | MECHANISM_OTHER

record Position =
  pos_x :: rat
  pos_y :: rat
  pos_z :: "rat option"

record Rotation =
  rot_x :: rat
  rot_y :: rat
  rot_z :: rat

record Vector3D =
  vec_x :: rat
  vec_y :: rat
  vec_z :: rat

text \<open>A tangent handle as the schema declares it: an \<open>x\<close> and a \<open>y\<close>.\<close>

record Handle =
  hd_x :: rat
  hd_y :: rat

record BezierControlPoint =
  bz_x :: rat
  bz_y :: rat
  bz_handleIn :: "Handle option"
  bz_handleOut :: "Handle option"

record SymmetryOptions =
  sym_enabled :: bool
  sym_count :: rat
  sym_axis :: string

record VersionHistory =
  h_version :: int
  h_timestamp :: date
  h_changes :: string

record IGlobalSettings =
  defaultCuttingMethod :: CuttingMethod
  defaultMaterial :: string
  scale :: rat

record IMaterial =
  mat_type :: oid
  mat_thickness :: rat
  mat_doubled :: bool

record IComponent =
  c_id :: string
  c_type :: ComponentType
  c_sectionId :: string
  c_name :: string
  c_material :: IMaterial
  c_cuttingMethod :: CuttingMethod
  c_bezierControls :: "BezierControlPoint list"
  c_position :: Position
  c_rotation :: Rotation
  c_symmetry :: SymmetryOptions
  c_linkedComponents :: "string list"
  c_constraints :: "string list"
  c_metadata :: json

record IFinDesign =
  fd_id :: string
  fd_componentId :: string
  fd_sectionId :: string
  fd_name :: string
  fd_finType :: FinType
  fd_rest :: json

record ISectionConnection =
  sc_id :: string
  sc_section1Id :: string
  sc_section2Id :: string
  sc_connectionType :: ConnectionType
  sc_mechanismType :: MechanismType
  sc_components :: "string list"

record Boundaries =
  b_start :: rat
  b_end :: rat

text \<open>
  A section carries its four declared fields and, under the index signature
  \<open>[key: string]: any\<close>, a type-specific substructure kept here as \<open>s_extra\<close>.
\<close>

record ISection =
  s_id :: string
  s_type :: SectionType
  s_name :: string
  s_boundaries :: Boundaries
  s_extra :: "(string \<times> json) list"

record ITemplateSettings =
  paperSize :: string
  orientation :: string
  units :: string
  includeInstructions :: bool
  includeRegistrationMarks :: bool

record IPerformanceMetrics =
  pm_weight :: rat
  pm_stability :: rat
  pm_dragCoefficient :: rat
  pm_estimatedHeight :: rat
  pm_centerOfGravity :: Vector3D
  pm_centerOfPressure :: Vector3D

record IDesign =
  d_id :: oid
  d_name :: string
  createdBy :: oid
  createdAt :: date
  updatedAt :: date
  isPublic :: bool
  globalSettings :: IGlobalSettings
  sections :: "ISection list"
  components :: "IComponent list"
  sectionConnections :: "ISectionConnection list"
  finDesigns :: "IFinDesign list"
  massProperties :: "json option"
  stabilityAnalysis :: "json option"
  flightPerformance :: "json option"
  performanceMetrics :: "IPerformanceMetrics option"
  templateSettings :: "ITemplateSettings option"
  qrCode :: "string option"
  thumbnailUrl :: "string option"
  version :: int
  history :: "VersionHistory list"

text \<open>
  \<open>Partial<IDesign>\<close>: every declared field of \<open>IDesign\<close>, each possibly absent. It is
  the type of the data handed to \<open>createDesign\<close> and of the patch handed to
  \<open>updateDesign\<close>. The document key \<open>_id\<close> is not among the fields a caller sets:
  \<open>createDesign\<close> never reads it and \<open>cloneDesign\<close> deletes it.
\<close>

record IDesign_partial =
  p_name :: "string option"
  p_createdBy :: "oid option"
  p_createdAt :: "date option"
  p_updatedAt :: "date option"
  p_isPublic :: "bool option"
  p_globalSettings :: "IGlobalSettings option"
  p_sections :: "ISection list option"
  p_components :: "IComponent list option"
  p_sectionConnections :: "ISectionConnection list option"
  p_finDesigns :: "IFinDesign list option"
  p_massProperties :: "json option"
  p_stabilityAnalysis :: "json option"
  p_flightPerformance :: "json option"
  p_performanceMetrics :: "IPerformanceMetrics option"
  p_templateSettings :: "ITemplateSettings option"
  p_qrCode :: "string option"
  p_thumbnailUrl :: "string option"
  p_version :: "int option"
  p_history :: "VersionHistory list option"

definition empty_partial :: IDesign_partial where
  "empty_partial =
     \<lparr> p_name = None, p_createdBy = None, p_createdAt = None, p_updatedAt = None,
       p_isPublic = None, p_globalSettings = None, p_sections = None, p_components = None,
       p_sectionConnections = None, p_finDesigns = None, p_massProperties = None,
       p_stabilityAnalysis = None, p_flightPerformance = None, p_performanceMetrics = None,
       p_templateSettings = None, p_qrCode = None, p_thumbnailUrl = None, p_version = None,
       p_history = None \<rparr>"

section \<open>JavaScript idioms\<close>

text \<open>
  \<open>a || b\<close>: \<open>b\<close> when \<open>a\<close> is falsy. An absent value is falsy; so are the empty
  string and \<open>false\<close>; an object or an array, even an empty one, is truthy.
\<close>

definition or_string :: "string option \<Rightarrow> string \<Rightarrow> string" where
  "or_string a b = (case a of None \<Rightarrow> b | Some s \<Rightarrow> if s = [] then b else s)"

definition or_bool :: "bool option \<Rightarrow> bool \<Rightarrow> bool" where
  "or_bool a b = (case a of None \<Rightarrow> b | Some x \<Rightarrow> if x then True else b)"

definition or_object :: "'a option \<Rightarrow> 'a \<Rightarrow> 'a" where
  "or_object a b = (case a of None \<Rightarrow> b | Some x \<Rightarrow> x)"

text \<open>
  A thrown \<open>Error(message)\<close>; a cast or validation failure of the schema, with the path
  it names; or another failure reported by the document store.
\<close>

datatype error =
    Error string
  | CastError string
  | ValidationError string
  | MongoError string

definition error_message :: "error \<Rightarrow> string" where
  "error_message e =
     (case e of
        Error m \<Rightarrow> m
      | CastError path \<Rightarrow> ''Cast to ObjectId failed at path '' @ path
      | ValidationError path \<Rightarrow> ''Design validation failed: '' @ path
      | MongoError m \<Rightarrow> m)"

section \<open>Strings\<close>

text \<open>
  \<open>toLowerCase\<close> on characters below 256: a capital letter (A to Z, and the accented
  capitals 192 to 222 but for the multiplication sign 215) gets bit 5 set, which adds
  32 to its code. \<open>trim\<close> removes white space at both ends.
\<close>

fun lower_char :: "char \<Rightarrow> char" where
  "lower_char (Char b0 b1 b2 b3 b4 b5 b6 b7) =
     (let n = (of_char (Char b0 b1 b2 b3 b4 b5 b6 b7) :: nat)
      in if (65 \<le> n \<and> n \<le> 90) \<or> (192 \<le> n \<and> n \<le> 222 \<and> n \<noteq> 215)
         then Char b0 b1 b2 b3 b4 True b6 b7
         else Char b0 b1 b2 b3 b4 b5 b6 b7)"

definition toLowerCase :: "string \<Rightarrow> string" where
  "toLowerCase s = map lower_char s"

definition isSpace :: "char \<Rightarrow> bool" where
  "isSpace c = (let n = (of_char c :: nat) in (9 \<le> n \<and> n \<le> 13) \<or> n = 32 \<or> n = 160)"

definition trim :: "string \<Rightarrow> string" where
  "trim s = rev (dropWhile isSpace (rev (dropWhile isSpace s)))"

definition isHexDigit :: "char \<Rightarrow> bool" where
  "isHexDigit c =
     (let n = (of_char c :: nat)
      in (48 \<le> n \<and> n \<le> 57) \<or> (65 \<le> n \<and> n \<le> 70) \<or> (97 \<le> n \<and> n \<le> 102))"

text \<open>
  Casting a string to an ObjectId: a string of 24 hexadecimal digits is the ObjectId it
  spells, whose string form is lower-case; any other string is refused. (The 12-byte
  string form that some versions of the driver also take is not among the strings the
  model casts.)
\<close>

definition castObjectId :: "string \<Rightarrow> oid option" where
  "castObjectId s =
     (if length s = 24 \<and> list_all isHexDigit s then Some (toLowerCase s) else None)"

text \<open>
  The validators of the request chains. \<open>isHexadecimal\<close> takes hexadecimal digits after
  an optional prefix \<open>0x\<close> or \<open>0h\<close>, in either case; \<open>isMongoId\<close> asks for a hexadecimal
  string of length 24, so it lets through a prefixed string that is no ObjectId.
\<close>

definition isHexadecimal :: "string \<Rightarrow> bool" where
  "isHexadecimal s =
     ((s \<noteq> [] \<and> list_all isHexDigit s)
      \<or> ((toLowerCase (take 2 s) = ''0x'' \<or> toLowerCase (take 2 s) = ''0h'')
          \<and> drop 2 s \<noteq> [] \<and> list_all isHexDigit (drop 2 s)))"

definition isMongoId :: "string \<Rightarrow> bool" where
  "isMongoId s = (isHexadecimal s \<and> length s = 24)"

text \<open>
  A header value may hold the tab and the characters from 32 on but for 127; setting a
  header to any other value throws.
\<close>

definition header_char_ok :: "char \<Rightarrow> bool" where
  "header_char_ok c = (let n = (of_char c :: nat) in n = 9 \<or> (32 \<le> n \<and> n \<noteq> 127))"

text \<open>
  \<open>path.join\<close> of a directory and a file name, \<open>path.basename\<close> and \<open>path.extname\<close>
  on POSIX paths without normalisation.
\<close>

definition path_join :: "string \<Rightarrow> string \<Rightarrow> string" where
  "path_join dir file = dir @ ''/'' @ file"

definition basename :: "string \<Rightarrow> string" where
  "basename p = rev (takeWhile (\<lambda>c. c \<noteq> CHR ''/'') (rev p))"

definition extname :: "string \<Rightarrow> string" where
  "extname p =
     (let b = basename p; suffix = takeWhile (\<lambda>c. c \<noteq> CHR ''.'') (rev b)
      in if length suffix = length b \<or> length suffix + 1 = length b then []
         else ''.'' @ rev suffix)"

section \<open>The schema (models/Design.ts)\<close>

text \<open>
  What \<open>DesignSchema\<close> does to data on its way into the collection, as far as the
  model's types leave it open. Casting: the name is trimmed; \<open>createdBy\<close>, the default
  material of the global settings and the material of every component are cast to
  ObjectIds; a component position with no \<open>z\<close> gets the default 0. A cast fails when a
  string is no ObjectId. Sections, connections, fin designs and the other fields go in
  as they are.
\<close>

definition cast_globalSettings :: "IGlobalSettings \<Rightarrow> IGlobalSettings option" where
  "cast_globalSettings g =
     (case castObjectId (defaultMaterial g) of
        None \<Rightarrow> None
      | Some m \<Rightarrow> Some (g\<lparr> defaultMaterial := m \<rparr>))"

definition cast_component :: "IComponent \<Rightarrow> IComponent option" where
  "cast_component c =
     (case castObjectId (mat_type (c_material c)) of
        None \<Rightarrow> None
      | Some m \<Rightarrow>
          Some (c\<lparr> c_material := (c_material c)\<lparr> mat_type := m \<rparr>,
                   c_position := (c_position c)
                     \<lparr> pos_z := Some (or_object (pos_z (c_position c)) 0) \<rparr> \<rparr>))"

definition cast_components :: "IComponent list \<Rightarrow> IComponent list option" where
  "cast_components cs = those (map cast_component cs)"

text \<open>
  The cast of an update document: of the fields it sets, those the schema casts. An
  absent field stays absent.
\<close>

definition cast_update :: "IDesign_partial \<Rightarrow> IDesign_partial option" where
  "cast_update p =
     (case (case p_createdBy p of None \<Rightarrow> Some None
            | Some u \<Rightarrow> map_option Some (castObjectId u)) of
        None \<Rightarrow> None
      | Some owner \<Rightarrow>
          (case (case p_globalSettings p of None \<Rightarrow> Some None
                 | Some g \<Rightarrow> map_option Some (cast_globalSettings g)) of
             None \<Rightarrow> None
           | Some settings \<Rightarrow>
               (case (case p_components p of None \<Rightarrow> Some None
                      | Some cs \<Rightarrow> map_option Some (cast_components cs)) of
                  None \<Rightarrow> None
                | Some comps \<Rightarrow>
                    Some (p\<lparr> p_name := map_option trim (p_name p),
                             p_createdBy := owner,
                             p_globalSettings := settings,
                             p_components := comps \<rparr>))))"

text \<open>The cast of a whole new document.\<close>

definition cast_document :: "IDesign \<Rightarrow> IDesign option" where
  "cast_document d =
     (case castObjectId (createdBy d) of
        None \<Rightarrow> None
      | Some owner \<Rightarrow>
          (case cast_globalSettings (globalSettings d) of
             None \<Rightarrow> None
           | Some settings \<Rightarrow>
               (case cast_components (components d) of
                  None \<Rightarrow> None
                | Some comps \<Rightarrow>
                    Some (d\<lparr> d_name := trim (d_name d), createdBy := owner,
                             globalSettings := settings, components := comps \<rparr>))))"

text \<open>
  Validation, which \<open>save\<close> runs and \<open>findByIdAndUpdate\<close> does not: a required string
  must not be empty, a material's thickness is at least 0 and a symmetry count at
  least 1. (Required fields that the model's types always hold, and enum membership,
  need no check here.)
\<close>

definition valid_section :: "ISection \<Rightarrow> bool" where
  "valid_section s = (s_id s \<noteq> [] \<and> s_name s \<noteq> [])"

definition valid_component :: "IComponent \<Rightarrow> bool" where
  "valid_component c =
     (c_id c \<noteq> [] \<and> c_sectionId c \<noteq> [] \<and> c_name c \<noteq> []
      \<and> 0 \<le> mat_thickness (c_material c) \<and> 1 \<le> sym_count (c_symmetry c))"

definition valid_connection :: "ISectionConnection \<Rightarrow> bool" where
  "valid_connection c = (sc_id c \<noteq> [] \<and> sc_section1Id c \<noteq> [] \<and> sc_section2Id c \<noteq> [])"

definition valid_document :: "IDesign \<Rightarrow> bool" where
  "valid_document d =
     (d_name d \<noteq> [] \<and> list_all valid_section (sections d)
      \<and> list_all valid_component (components d)
      \<and> list_all valid_connection (sectionConnections d))"

section \<open>The document store\<close>

text \<open>
  The Design collection as a finite map from document key to document; the keys are
  ObjectIds in their string form. The operations the service calls on the model class
  are the store's. \<open>save\<close> of a new document casts and validates it, failing with a
  validation error when either fails, and inserts it, failing on a key already
  present. \<open>findById\<close> casts the string it is given: a string that is no ObjectId is
  refused with a cast error, any other is looked up in its canonical form; a string
  that is a key is its own canonical form. \<open>findByIdAndUpdate\<close> with \<open>{new: true}\<close>
  finds the document the same way, casts the update, sets the supplied fields, pushes
  the history entry, and returns the updated document, or null when there is none.
  Setting and pushing the same path in one update is a conflict the store refuses. The
  store's own availability is outside the model.
\<close>

type_synonym db = "oid \<rightharpoonup> IDesign"

definition save :: "db \<Rightarrow> IDesign \<Rightarrow> db \<times> (error + IDesign)" where
  "save store doc =
     (case cast_document doc of
        None \<Rightarrow> (store, Inl (ValidationError ''cast''))
      | Some doc' \<Rightarrow>
          if \<not> valid_document doc' then (store, Inl (ValidationError ''required''))
          else if store (d_id doc') = None then (store(d_id doc' \<mapsto> doc'), Inr doc')
          else (store, Inl (MongoError ''E11000 duplicate key error'')))"

definition resolve_id :: "db \<Rightarrow> string \<Rightarrow> oid option" where
  "resolve_id store i = (if store i \<noteq> None then Some i else castObjectId i)"

definition findById :: "db \<Rightarrow> string \<Rightarrow> error + IDesign option" where
  "findById store i =
     (case resolve_id store i of
        None \<Rightarrow> Inl (CastError ''_id'')
      | Some k \<Rightarrow> Inr (store k))"

definition set_fields :: "IDesign_partial \<Rightarrow> IDesign \<Rightarrow> IDesign" where
  "set_fields p d =
     \<lparr> d_id = d_id d,
       d_name = or_object (p_name p) (d_name d),
       createdBy = or_object (p_createdBy p) (createdBy d),
       createdAt = or_object (p_createdAt p) (createdAt d),
       updatedAt = or_object (p_updatedAt p) (updatedAt d),
       isPublic = or_object (p_isPublic p) (isPublic d),
       globalSettings = or_object (p_globalSettings p) (globalSettings d),
       sections = or_object (p_sections p) (sections d),
       components = or_object (p_components p) (components d),
       sectionConnections = or_object (p_sectionConnections p) (sectionConnections d),
       finDesigns = or_object (p_finDesigns p) (finDesigns d),
       massProperties =
         (case p_massProperties p of None \<Rightarrow> massProperties d | Some v \<Rightarrow> Some v),
       stabilityAnalysis =
         (case p_stabilityAnalysis p of None \<Rightarrow> stabilityAnalysis d | Some v \<Rightarrow> Some v),
       flightPerformance =
         (case p_flightPerformance p of None \<Rightarrow> flightPerformance d | Some v \<Rightarrow> Some v),
       performanceMetrics =
         (case p_performanceMetrics p of None \<Rightarrow> performanceMetrics d | Some v \<Rightarrow> Some v),
       templateSettings =
         (case p_templateSettings p of None \<Rightarrow> templateSettings d | Some v \<Rightarrow> Some v),
       qrCode = (case p_qrCode p of None \<Rightarrow> qrCode d | Some v \<Rightarrow> Some v),
       thumbnailUrl = (case p_thumbnailUrl p of None \<Rightarrow> thumbnailUrl d | Some v \<Rightarrow> Some v),
       version = or_object (p_version p) (version d),
       history = or_object (p_history p) (history d) \<rparr>"

definition findByIdAndUpdate ::
  "db \<Rightarrow> string \<Rightarrow> IDesign_partial \<Rightarrow> VersionHistory \<Rightarrow> db \<times> (error + IDesign option)" where
  "findByIdAndUpdate store i setDoc pushed =
     (case resolve_id store i of
        None \<Rightarrow> (store, Inl (CastError ''_id''))
      | Some k \<Rightarrow>
          (case cast_update setDoc of
             None \<Rightarrow> (store, Inl (CastError ''update''))
           | Some setDoc' \<Rightarrow>
               (case store k of
                  None \<Rightarrow> (store, Inr None)
                | Some doc \<Rightarrow>
                    if p_history setDoc' \<noteq> None
                    then (store,
                          Inl (MongoError ''Updating the path history would create a conflict''))
                    else
                      let doc' = (set_fields setDoc' doc)\<lparr> history := history doc @ [pushed] \<rparr>
                      in (store(k \<mapsto> doc'), Inr (Some doc')))))"

text \<open>\<open>toObject()\<close>: the document as plain data, every stored field present.\<close>

definition toObject :: "IDesign \<Rightarrow> IDesign_partial" where
  "toObject d =
     \<lparr> p_name = Some (d_name d), p_createdBy = Some (createdBy d),
       p_createdAt = Some (createdAt d), p_updatedAt = Some (updatedAt d),
       p_isPublic = Some (isPublic d), p_globalSettings = Some (globalSettings d),
       p_sections = Some (sections d), p_components = Some (components d),
       p_sectionConnections = Some (sectionConnections d),
       p_finDesigns = Some (finDesigns d), p_massProperties = massProperties d,
       p_stabilityAnalysis = stabilityAnalysis d, p_flightPerformance = flightPerformance d,
       p_performanceMetrics = performanceMetrics d, p_templateSettings = templateSettings d,
       p_qrCode = qrCode d, p_thumbnailUrl = thumbnailUrl d, p_version = Some (version d),
       p_history = Some (history d) \<rparr>"

section \<open>DesignService (services/design.service.ts)\<close>

text \<open>
  Each method takes the store and returns the store it leaves with its result; a thrown
  error is \<open>Inl\<close>. The \<open>catch\<close> blocks of the service log and rethrow, so they do not
  show. \<open>now k\<close> is what the k-th \<open>new Date()\<close> of the call reads, and \<open>oids k\<close> the
  k-th fresh ObjectId: three for the default sections, then the new document's key.
\<close>

definition default_sections :: "(nat \<Rightarrow> oid) \<Rightarrow> ISection list" where
  "default_sections oids =
     [ \<lparr> s_id = oids 0, s_type = NOSECONE, s_name = ''Nosecone'',
         s_boundaries = \<lparr> b_start = 0, b_end = 0.2 \<rparr>,
         s_extra =
           [ (''noseconeStructure'', JObj
               [ (''supportType'', JStr ''conical''),
                 (''reinforcementRings'', JNum 2),
                 (''tipConstruction'', JStr ''rounded''),
                 (''bulkhead'', JObj [(''design'', JObj []), (''reinforced'', JBool True)]) ]),
             (''noseconeShell'', JObj
               [ (''constructionType'', JStr ''gores''),
                 (''segmentCount'', JNum 4),
                 (''attachmentMethod'', JStr ''tab_slot''),
                 (''design'', JObj []) ]) ] \<rparr>,
       \<lparr> s_id = oids 1, s_type = PAYLOAD_BAY, s_name = ''Payload Bay'',
         s_boundaries = \<lparr> b_start = 0.2, b_end = 0.5 \<rparr>,
         s_extra =
           [ (''finConfiguration'', JObj
               [(''mainFinCount'', JNum 4), (''upperFinCount'', JNum 0)]),
             (''sparTemplates'', JObj
               [ (''typeA'', JObj [(''count'', JNum 4), (''design'', JObj [])]),
                 (''typeB'', JObj [(''count'', JNum 0), (''design'', JObj [])]) ]),
             (''shroudPanels'', JObj
               [(''count'', JNum 4), (''doubled'', JBool False), (''panels'', JArr [])]),
             (''sparPositions'', JArr []) ] \<rparr>,
       \<lparr> s_id = oids 2, s_type = MAIN_BODY, s_name = ''Main Body'',
         s_boundaries = \<lparr> b_start = 0.5, b_end = 1.0 \<rparr>,
         s_extra =
           [ (''finConfiguration'', JObj
               [(''mainFinCount'', JNum 4), (''upperFinCount'', JNum 0)]),
             (''sparTemplates'', JObj
               [ (''typeA'', JObj [(''count'', JNum 4), (''design'', JObj [])]),
                 (''typeB'', JObj [(''count'', JNum 0), (''design'', JObj [])]) ]),
             (''shroudPanels'', JObj
               [(''count'', JNum 4), (''doubled'', JBool False), (''panels'', JArr [])]),
             (''sparPositions'', JArr []) ] \<rparr> ]"

definition default_globalSettings :: IGlobalSettings where
  "default_globalSettings =
     \<lparr> defaultCuttingMethod = DIGITAL, defaultMaterial = ''cardstock'', scale = 1.0 \<rparr>"

definition default_performanceMetrics :: IPerformanceMetrics where
  "default_performanceMetrics =
     \<lparr> pm_weight = 0, pm_stability = 0, pm_dragCoefficient = 0, pm_estimatedHeight = 0,
       pm_centerOfGravity = \<lparr> vec_x = 0, vec_y = 0, vec_z = 0 \<rparr>,
       pm_centerOfPressure = \<lparr> vec_x = 0, vec_y = 0, vec_z = 0 \<rparr> \<rparr>"

definition default_templateSettings :: ITemplateSettings where
  "default_templateSettings =
     \<lparr> paperSize = ''letter'', orientation = ''portrait'', units = ''mm'',
       includeInstructions = True, includeRegistrationMarks = True \<rparr>"

text \<open>The document \<open>new Design({...})\<close> builds from the caller's data and the defaults.\<close>

definition new_Design ::
  "(nat \<Rightarrow> date) \<Rightarrow> (nat \<Rightarrow> oid) \<Rightarrow> string \<Rightarrow> IDesign_partial \<Rightarrow> IDesign" where
  "new_Design now oids userId designData =
       \<lparr> d_id = oids 3,
         d_name = or_string (p_name designData) ''Untitled Design'',
         createdBy = userId,
         createdAt = now 0,
         updatedAt = now 1,
         isPublic = or_bool (p_isPublic designData) False,
         globalSettings = or_object (p_globalSettings designData) default_globalSettings,
         sections = or_object (p_sections designData) (default_sections oids),
         components = or_object (p_components designData) [],
         sectionConnections = or_object (p_sectionConnections designData) [],
         finDesigns = or_object (p_finDesigns designData) [],
         massProperties = None,
         stabilityAnalysis = None,
         flightPerformance = None,
         performanceMetrics =
           Some (or_object (p_performanceMetrics designData) default_performanceMetrics),
         templateSettings =
           Some (or_object (p_templateSettings designData) default_templateSettings),
         qrCode = None,
         thumbnailUrl = None,
         version = 1,
         history =
           [\<lparr> h_version = 1, h_timestamp = now 2, h_changes = ''Initial design creation'' \<rparr>] \<rparr>"

definition createDesign ::
  "db \<Rightarrow> (nat \<Rightarrow> date) \<Rightarrow> (nat \<Rightarrow> oid) \<Rightarrow> string \<Rightarrow> IDesign_partial
     \<Rightarrow> db \<times> (error + IDesign)" where
  "createDesign store now oids userId designData =
     save store (new_Design now oids userId designData)"

text \<open>
  \<open>getDesignById\<close>: what \<open>findById\<close> throws is rethrown; null for an unknown key; the
  access check runs only for a truthy \<open>userId\<close> (one that is given and not the empty
  string).
\<close>

definition getDesignById :: "db \<Rightarrow> string \<Rightarrow> string option \<Rightarrow> error + IDesign option" where
  "getDesignById store designId userId =
     (case findById store designId of
        Inl e \<Rightarrow> Inl e
      | Inr None \<Rightarrow> Inr None
      | Inr (Some design) \<Rightarrow>
          if (case userId of None \<Rightarrow> False | Some u \<Rightarrow> u \<noteq> [] \<and> createdBy design \<noteq> u)
             \<and> \<not> isPublic design
          then Inl (Error ''Access denied'')
          else Inr (Some design))"

definition updateDesign ::
  "db \<Rightarrow> (nat \<Rightarrow> date) \<Rightarrow> string \<Rightarrow> string \<Rightarrow> IDesign_partial \<Rightarrow> string option
     \<Rightarrow> db \<times> (error + IDesign option)" where
  "updateDesign store now designId userId updateData changeDescription =
     (case getDesignById store designId (Some userId) of
        Inl e \<Rightarrow> (store, Inl e)
      | Inr None \<Rightarrow> (store, Inr None)
      | Inr (Some design) \<Rightarrow>
          if createdBy design \<noteq> userId then (store, Inl (Error ''Access denied''))
          else
            let updateData1 = updateData\<lparr> p_createdBy := None \<rparr>;
                updateData2 = updateData1\<lparr> p_createdAt := None \<rparr>;
                updateData3 = updateData2\<lparr> p_version := None \<rparr>;
                updateData4 = updateData3\<lparr> p_history := None \<rparr>;
                newVersion = version design + 1
            in findByIdAndUpdate store designId
                 (updateData4\<lparr> p_updatedAt := Some (now 0), p_version := Some newVersion \<rparr>)
                 \<lparr> h_version = newVersion, h_timestamp = now 1,
                   h_changes = or_object changeDescription ''Design update'' \<rparr>)"

definition cloneDesign ::
  "db \<Rightarrow> (nat \<Rightarrow> date) \<Rightarrow> (nat \<Rightarrow> oid) \<Rightarrow> string \<Rightarrow> string \<Rightarrow> string option
     \<Rightarrow> db \<times> (error + IDesign option)" where
  "cloneDesign store now oids designId userId newName =
     (case getDesignById store designId (Some userId) of
        Inl e \<Rightarrow> (store, Inl e)
      | Inr None \<Rightarrow> (store, Inr None)
      | Inr (Some design) \<Rightarrow>
          let designObject = (toObject design)
                \<lparr> p_name := Some (or_string newName (''Copy of '' @ d_name design)),
                  p_createdBy := Some userId,
                  p_createdAt := Some (now 0),
                  p_updatedAt := Some (now 1),
                  p_isPublic := Some False,
                  p_version := Some 1,
                  p_history := Some
                    [\<lparr> h_version = 1, h_timestamp = now 2,
                       h_changes = ''Cloned from design '' @ designId \<rparr>] \<rparr>
          in (case createDesign store (\<lambda>k. now (k + 3)) oids userId designObject of
                (store', Inl e) \<Rightarrow> (store', Inl e)
              | (store', Inr newDesign) \<Rightarrow> (store', Inr (Some newDesign))))"

definition togglePublicStatus ::
  "db \<Rightarrow> (nat \<Rightarrow> date) \<Rightarrow> string \<Rightarrow> string \<Rightarrow> db \<times> (error + IDesign option)" where
  "togglePublicStatus store now designId userId =
     (case getDesignById store designId (Some userId) of
        Inl e \<Rightarrow> (store, Inl e)
      | Inr None \<Rightarrow> (store, Inr None)
      | Inr (Some design) \<Rightarrow>
          if createdBy design \<noteq> userId then (store, Inl (Error ''Access denied''))
          else
            let newStatus = \<not> isPublic design
            in findByIdAndUpdate store designId
                 (empty_partial\<lparr> p_isPublic := Some newStatus, p_updatedAt := Some (now 0) \<rparr>)
                 \<lparr> h_version = version design, h_timestamp = now 1,
                   h_changes =
                     (if newStatus then ''Made design public'' else ''Made design private'') \<rparr>)"

section \<open>FileService (services/file.service.ts)\<close>

text \<open>
  The placeholder template: fixed text around the design's name.
\<close>

definition svg_head :: string where
  \<open>svg_head =
     ''<?xml version="1.0" encoding="UTF-8" standalone="no"?>\<newline>'' @
     ''<svg width="800" height="600" xmlns="http://www.w3.org/2000/svg">\<newline>'' @
     ''  <title>''\<close>

definition svg_tail :: string where
  \<open>svg_tail =
     '' - Template</title>\<newline>'' @
     ''  <defs>\<newline>'' @
     ''    <style>\<newline>'' @
     ''      .section-nosecone { fill: #f9d5e5; stroke: #000; stroke-width: 1; }\<newline>'' @
     ''      .section-payload { fill: #eeeeee; stroke: #000; stroke-width: 1; }\<newline>'' @
     ''      .section-main { fill: #d5f9e5; stroke: #000; stroke-width: 1; }\<newline>'' @
     ''      .fin { fill: #e5d5f9; stroke: #000; stroke-width: 1; }\<newline>'' @
     ''      .text { font-family: Arial; font-size: 12px; }\<newline>'' @
     ''    </style>\<newline>'' @
     ''  </defs>\<newline>'' @
     ''  <g id="rocket">\<newline>'' @
     ''    <!-- Nosecone -->\<newline>'' @
     ''    <path d="M 400,100 L 350,200 L 450,200 Z" class="section-nosecone" />\<newline>'' @
     ''    \<newline>'' @
     ''    <!-- Payload bay -->\<newline>'' @
     ''    <rect x="350" y="200" width="100" height="100" class="section-payload" />\<newline>'' @
     ''    \<newline>'' @
     ''    <!-- Main body -->\<newline>'' @
     ''    <rect x="350" y="300" width="100" height="200" class="section-main" />\<newline>'' @
     ''    \<newline>'' @
     ''    <!-- Fins -->\<newline>'' @
     ''    <path d="M 350,450 L 300,500 L 350,500 Z" class="fin" />\<newline>'' @
     ''    <path d="M 450,450 L 500,500 L 450,500 Z" class="fin" />\<newline>'' @
     ''    \<newline>'' @
     ''    <!-- Labels -->\<newline>'' @
     ''    <text x="400" y="150" text-anchor="middle" class="text">Nosecone</text>\<newline>'' @
     ''    <text x="400" y="250" text-anchor="middle" class="text">Payload Bay</text>\<newline>'' @
     ''    <text x="400" y="400" text-anchor="middle" class="text">Main Body</text>\<newline>'' @
     ''  </g>\<newline>'' @
     ''</svg>''\<close>

definition generateSvgTemplate :: "IDesign \<Rightarrow> error + string" where
  "generateSvgTemplate design = Inr (svg_head @ d_name design @ svg_tail)"

text \<open>
  The surroundings of the file service: the AWS settings of the configuration, the
  temporary directory, the k-th \<open>uuidv4()\<close> of a call, which paths can be written, and
  what the storage service answers to an upload (a location, or \<open>None\<close> when the upload
  is rejected). The file system is a map from path to content; reading or unlinking a
  path that is absent fails.
\<close>

record aws_config =
  aws_region :: string
  aws_accessKeyId :: string
  aws_secretAccessKey :: string
  aws_s3Bucket :: string

record s3_params =
  s3_Bucket :: string
  s3_Key :: string
  s3_Body :: string
  s3_ContentType :: string
  s3_ACL :: string

record file_env =
  env_aws :: aws_config
  env_tmpdir :: string
  env_uuid :: "nat \<Rightarrow> string"
  env_writable :: "string \<Rightarrow> bool"
  env_s3_upload :: "s3_params \<Rightarrow> string option"

type_synonym filesystem = "string \<rightharpoonup> string"

definition writeFile :: "filesystem \<Rightarrow> file_env \<Rightarrow> string \<Rightarrow> string \<Rightarrow> error + filesystem" where
  "writeFile fs env p content =
     (if env_writable env p then Inr (fs(p \<mapsto> content)) else Inl (Error ''EACCES''))"

definition readFile :: "filesystem \<Rightarrow> string \<Rightarrow> error + string" where
  "readFile fs p = (case fs p of None \<Rightarrow> Inl (Error ''ENOENT'') | Some content \<Rightarrow> Inr content)"

definition unlink :: "filesystem \<Rightarrow> string \<Rightarrow> error + filesystem" where
  "unlink fs p = (case fs p of None \<Rightarrow> Inl (Error ''ENOENT'') | Some content \<Rightarrow> Inr (fs(p := None)))"

text \<open>
  The module's \<open>s3\<close> client exists when both credentials are set; the service uploads
  when the client exists and a bucket is named.
\<close>

definition s3_client :: "file_env \<Rightarrow> bool" where
  "s3_client env =
     (aws_accessKeyId (env_aws env) \<noteq> [] \<and> aws_secretAccessKey (env_aws env) \<noteq> [])"

definition s3_configured :: "file_env \<Rightarrow> bool" where
  "s3_configured env = (s3_client env \<and> aws_s3Bucket (env_aws env) \<noteq> [])"

definition saveSvgToTemp ::
  "filesystem \<Rightarrow> file_env \<Rightarrow> string \<Rightarrow> string \<Rightarrow> filesystem \<times> (error + string)" where
  "saveSvgToTemp fs env svgContent filename =
     (let tempFilePath = path_join (env_tmpdir env) (env_uuid env 0 @ ''_'' @ filename)
      in case writeFile fs env tempFilePath svgContent of
           Inl e \<Rightarrow> (fs, Inl (Error ''Failed to save SVG to temporary file''))
         | Inr fs' \<Rightarrow> (fs', Inr tempFilePath))"

definition getContentType :: "string \<Rightarrow> string" where
  "getContentType filePath =
     (let ext = toLowerCase (extname filePath)
      in if ext = ''.svg'' then ''image/svg+xml''
         else if ext = ''.pdf'' then ''application/pdf''
         else if ext = ''.studio'' then ''application/octet-stream''
         else if ext = ''.png'' then ''image/png''
         else if ext = ''.jpg'' \<or> ext = ''.jpeg'' then ''image/jpeg''
         else ''application/octet-stream'')"

definition uploadFileToS3 ::
  "filesystem \<Rightarrow> file_env \<Rightarrow> string \<Rightarrow> string \<Rightarrow> filesystem \<times> (error + string option)" where
  "uploadFileToS3 fs env filePath key =
     (if \<not> s3_configured env then (fs, Inr None)
      else
        case readFile fs filePath of
          Inl e \<Rightarrow> (fs, Inl (Error ''Failed to upload file to S3''))
        | Inr fileContent \<Rightarrow>
            (case env_s3_upload env
                    \<lparr> s3_Bucket = aws_s3Bucket (env_aws env), s3_Key = key,
                      s3_Body = fileContent, s3_ContentType = getContentType filePath,
                      s3_ACL = ''private'' \<rparr> of
               None \<Rightarrow> (fs, Inl (Error ''Failed to upload file to S3''))
             | Some location \<Rightarrow>
                 (case unlink fs filePath of
                    Inl e \<Rightarrow> (fs, Inl (Error ''Failed to upload file to S3''))
                  | Inr fs' \<Rightarrow> (fs', Inr (Some location)))))"

definition generateAndSaveTemplate ::
  "filesystem \<Rightarrow> file_env \<Rightarrow> string \<Rightarrow> IDesign \<Rightarrow> filesystem \<times> (error + string)" where
  "generateAndSaveTemplate fs env designId design =
     (case generateSvgTemplate design of
        Inl e \<Rightarrow> (fs, Inl (Error ''Failed to generate and save template''))
      | Inr svgContent \<Rightarrow>
          (case saveSvgToTemp fs env svgContent (designId @ ''.svg'') of
             (fs1, Inl e) \<Rightarrow> (fs1, Inl (Error ''Failed to generate and save template''))
           | (fs1, Inr tempFilePath) \<Rightarrow>
               let s3Key = ''templates/'' @ designId @ ''/'' @ env_uuid env 1 @ ''.svg''
               in if s3_configured env
                  then
                    (case uploadFileToS3 fs1 env tempFilePath s3Key of
                       (fs2, Inl e) \<Rightarrow>
                         (fs2, Inl (Error ''Failed to generate and save template''))
                     | (fs2, Inr s3Url) \<Rightarrow>
                         (case unlink fs2 tempFilePath of
                            Inl e \<Rightarrow> (fs2, Inl (Error ''Failed to generate and save template''))
                          | Inr fs3 \<Rightarrow> (fs3, Inr (or_string s3Url tempFilePath))))
                  else (fs1, Inr tempFilePath)))"

text \<open>The three encoders wrap the vector document in fixed text; nothing in them throws.\<close>

definition generateSilhouetteStudioFile :: "string \<Rightarrow> error + string" where
  \<open>generateSilhouetteStudioFile svgContent =
     Inr (''SILHOUETTE-STUDIO-FILE\<newline>'' @ svgContent)\<close>

definition generateCricutFile :: "string \<Rightarrow> error + string" where
  \<open>generateCricutFile svgContent = Inr (''CRICUT-DESIGN-SPACE-FILE\<newline>'' @ svgContent)\<close>

definition generatePdfTemplate :: "string \<Rightarrow> error + string" where
  \<open>generatePdfTemplate svgContent =
     Inr (''%PDF-1.7\<newline>1 0 obj\<newline><< /Type /Catalog /Pages 2 0 R >>\<newline>endobj\<newline>''
          @ svgContent @ ''\<newline>endobj\<newline>%%EOF'')\<close>

section \<open>DesignController.updateDesign (controllers/design.controller.ts)\<close>

text \<open>
  A response is its status and what it carries: the validation errors (each kept as
  its message), a message, a message with a design, or a file with its content type,
  its content disposition and its bytes.
\<close>

datatype response_body =
    Errors "string list"
  | Message string
  | MessageDesign string IDesign
  | File string string string

record response =
  res_status :: nat
  res_body :: response_body

text \<open>
  A request to \<open>PUT /:id\<close> after authentication: the body is the change description,
  if any, and the rest of it, the patch. The handler is given what
  \<open>validationResult(req)\<close> holds. It hands the service the description, or
  \<open>Design update\<close> when the description is absent or empty.
\<close>

record update_request =
  u_params_id :: string
  u_user_id :: string
  u_changeDescription :: "string option"
  u_updateData :: IDesign_partial

definition DesignController_updateDesign ::
  "db \<Rightarrow> (nat \<Rightarrow> date) \<Rightarrow> string list \<Rightarrow> update_request \<Rightarrow> db \<times> response" where
  "DesignController_updateDesign store now errors req =
     (if errors \<noteq> [] then (store, \<lparr> res_status = 400, res_body = Errors errors \<rparr>)
      else
        case updateDesign store now (u_params_id req) (u_user_id req) (u_updateData req)
               (Some (or_string (u_changeDescription req) ''Design update'')) of
          (store', Inr None) \<Rightarrow>
            (store', \<lparr> res_status = 404,
                       res_body = Message ''Design not found or access denied'' \<rparr>)
        | (store', Inr (Some design)) \<Rightarrow>
            (store', \<lparr> res_status = 200,
                       res_body = MessageDesign ''Design updated successfully'' design \<rparr>)
        | (store', Inl e) \<Rightarrow>
            if error_message e = ''Access denied''
            then (store', \<lparr> res_status = 403, res_body = Message ''Access denied'' \<rparr>)
            else (store', \<lparr> res_status = 500, res_body = Message ''Error updating design'' \<rparr>))"

section \<open>FileController (controllers/file.controller.ts, routes/file.routes.ts)\<close>

text \<open>
  A request to \<open>GET /template/:id\<close> after authentication.
\<close>

record template_request =
  t_params_id :: string
  t_query_format :: "string option"
  t_user_id :: string

text \<open>The calls a handler makes on the services, in order.\<close>

datatype service_call =
    GetDesignById
  | GenerateSvgTemplate
  | GeneratePdfTemplate
  | GenerateSilhouetteStudioFile
  | GenerateCricutFile

definition supported_formats :: "string list" where
  "supported_formats = [''svg'', ''pdf'', ''silhouette'', ''cricut'']"

text \<open>
  \<open>generateTemplateValidation\<close>: the id must be a Mongo id; the format is optional, and
  when the query has one it must be in the list as it is written.
\<close>

definition generateTemplateValidation :: "template_request \<Rightarrow> string list" where
  "generateTemplateValidation req =
     (if isMongoId (t_params_id req) then [] else [''Invalid design ID''])
     @ (case t_query_format req of
          None \<Rightarrow> []
        | Some f \<Rightarrow> if f \<in> set supported_formats then [] else [''Invalid format''])"

definition attachment :: "string \<Rightarrow> string \<Rightarrow> string" where
  \<open>attachment name ext = ''attachment; filename="'' @ name @ ext @ ''"''\<close>

text \<open>
  How each branch of the handler ends: it sets the content type, sets the content
  disposition, and sends. Setting the disposition throws when the design's name puts in
  it a character that a header may not hold; the handler's catch then answers with
  status 500.
\<close>

definition send_file :: "string \<Rightarrow> string \<Rightarrow> string \<Rightarrow> response" where
  "send_file contentType disposition payload =
     (if list_all header_char_ok disposition
      then \<lparr> res_status = 200, res_body = File contentType disposition payload \<rparr>
      else \<lparr> res_status = 500, res_body = Message ''Error generating template'' \<rparr>)"

text \<open>
  The handler, given what \<open>validationResult(req)\<close> holds. Every error thrown inside it
  is caught and answered with status 500.
\<close>

definition generateTemplate ::
  "db \<Rightarrow> string list \<Rightarrow> template_request \<Rightarrow> response \<times> service_call list" where
  "generateTemplate store errors req =
     (if errors \<noteq> [] then (\<lparr> res_status = 400, res_body = Errors errors \<rparr>, [])
      else
        let designId = t_params_id req;
            format = toLowerCase (or_string (t_query_format req) ''svg'')
        in case getDesignById store designId (Some (t_user_id req)) of
             Inl e \<Rightarrow>
               (\<lparr> res_status = 500, res_body = Message ''Error generating template'' \<rparr>,
                [GetDesignById])
           | Inr None \<Rightarrow>
               (\<lparr> res_status = 404, res_body = Message ''Design not found or access denied'' \<rparr>,
                [GetDesignById])
           | Inr (Some design) \<Rightarrow>
               (case generateSvgTemplate design of
                  Inl e \<Rightarrow>
                    (\<lparr> res_status = 500, res_body = Message ''Error generating template'' \<rparr>,
                     [GetDesignById, GenerateSvgTemplate])
                | Inr svgContent \<Rightarrow>
                    if format = ''svg'' then
                      (send_file ''image/svg+xml'' (attachment (d_name design) ''.svg'')
                         svgContent,
                       [GetDesignById, GenerateSvgTemplate])
                    else if format = ''pdf'' then
                      (case generatePdfTemplate svgContent of
                         Inl e \<Rightarrow>
                           (\<lparr> res_status = 500,
                              res_body = Message ''Error generating template'' \<rparr>,
                            [GetDesignById, GenerateSvgTemplate, GeneratePdfTemplate])
                       | Inr pdfBuffer \<Rightarrow>
                           (send_file ''application/pdf'' (attachment (d_name design) ''.pdf'')
                              pdfBuffer,
                            [GetDesignById, GenerateSvgTemplate, GeneratePdfTemplate]))
                    else if format = ''silhouette'' then
                      (case generateSilhouetteStudioFile svgContent of
                         Inl e \<Rightarrow>
                           (\<lparr> res_status = 500,
                              res_body = Message ''Error generating template'' \<rparr>,
                            [GetDesignById, GenerateSvgTemplate, GenerateSilhouetteStudioFile])
                       | Inr silhouetteBuffer \<Rightarrow>
                           (send_file ''application/octet-stream''
                              (attachment (d_name design) ''.studio'') silhouetteBuffer,
                            [GetDesignById, GenerateSvgTemplate, GenerateSilhouetteStudioFile]))
                    else if format = ''cricut'' then
                      (case generateCricutFile svgContent of
                         Inl e \<Rightarrow>
                           (\<lparr> res_status = 500,
                              res_body = Message ''Error generating template'' \<rparr>,
                            [GetDesignById, GenerateSvgTemplate, GenerateCricutFile])
                       | Inr cricutBuffer \<Rightarrow>
                           (send_file ''application/octet-stream''
                              (attachment (d_name design) ''.zip'') cricutBuffer,
                            [GetDesignById, GenerateSvgTemplate, GenerateCricutFile]))
                    else
                      (\<lparr> res_status = 400, res_body = Message ''Unsupported format'' \<rparr>,
                       [GetDesignById, GenerateSvgTemplate])))"

text \<open>The route: the validation chain runs, then the handler.\<close>

definition template_route :: "db \<Rightarrow> template_request \<Rightarrow> response \<times> service_call list" where
  "template_route store req = generateTemplate store (generateTemplateValidation req) req"

section \<open>Sequences of calls\<close>

text \<open>
  A caller's successive \<open>updateDesign\<close> calls on one design: each call has its own clock
  readings, patch and optional change description. The run stops with \<open>None\<close> at the
  first call that is not accepted (an error, or a null result).
\<close>

record update_call =
  uc_now :: "nat \<Rightarrow> date"
  uc_patch :: IDesign_partial
  uc_description :: "string option"

fun run_updates ::
  "db \<Rightarrow> oid \<Rightarrow> string \<Rightarrow> update_call list \<Rightarrow> IDesign \<Rightarrow> (db \<times> IDesign) option" where
  "run_updates store i u [] d = Some (store, d)"
| "run_updates store i u (c # cs) d =
     (case updateDesign store (uc_now c) i u (uc_patch c) (uc_description c) of
        (store', Inr (Some d')) \<Rightarrow> run_updates store' i u cs d'
      | _ \<Rightarrow> None)"

text \<open>
  An arbitrary caller: any sequence of the four mutating operations, each with its own
  arguments. \<open>apply_op\<close> gives the store an accepted operation leaves, and \<open>None\<close> for
  one that throws or returns null; \<open>run_ops\<close> runs a sequence of accepted operations.
\<close>

datatype operation =
    Create "nat \<Rightarrow> date" "nat \<Rightarrow> oid" string IDesign_partial
  | Update "nat \<Rightarrow> date" oid string IDesign_partial "string option"
  | Clone "nat \<Rightarrow> date" "nat \<Rightarrow> oid" oid string "string option"
  | Toggle "nat \<Rightarrow> date" oid string

fun apply_op :: "db \<Rightarrow> operation \<Rightarrow> db option" where
  "apply_op store (Create now oids u data) =
     (case createDesign store now oids u data of
        (store', Inr d) \<Rightarrow> Some store' | _ \<Rightarrow> None)"
| "apply_op store (Update now i u p desc) =
     (case updateDesign store now i u p desc of
        (store', Inr (Some d)) \<Rightarrow> Some store' | _ \<Rightarrow> None)"
| "apply_op store (Clone now oids i u newName) =
     (case cloneDesign store now oids i u newName of
        (store', Inr (Some d)) \<Rightarrow> Some store' | _ \<Rightarrow> None)"
| "apply_op store (Toggle now i u) =
     (case togglePublicStatus store now i u of
        (store', Inr (Some d)) \<Rightarrow> Some store' | _ \<Rightarrow> None)"

fun run_ops :: "db \<Rightarrow> operation list \<Rightarrow> db option" where
  "run_ops store [] = Some store"
| "run_ops store (x # xs) =
     (case apply_op store x of None \<Rightarrow> None | Some store' \<Rightarrow> run_ops store' xs)"

text \<open>The design a call returned, when it was accepted.\<close>

definition accepted_design :: "db \<times> (error + IDesign option) \<Rightarrow> IDesign option" where
  "accepted_design r = (case snd r of Inr (Some d) \<Rightarrow> Some d | _ \<Rightarrow> None)"

text \<open>The version numbers in the history of design \<open>i\<close> after a run from the empty store.\<close>

definition history_versions_after :: "operation list \<Rightarrow> oid \<Rightarrow> int list option" where
  "history_versions_after ops i =
     (case run_ops Map.empty ops of
        None \<Rightarrow> None
      | Some st \<Rightarrow> (case st i of None \<Rightarrow> None | Some d \<Rightarrow> Some (map h_version (history d))))"

section \<open>The invariants the specification names\<close>

text \<open>
  Boundary tiling of an ordered section list: there is a section, the first starts at 0,
  the last ends at 1, every section has positive length, and each section's end is the
  next section's start.
\<close>

fun chained :: "ISection list \<Rightarrow> bool" where
  "chained [] = True"
| "chained [s] = True"
| "chained (s # t # rest) =
     (b_end (s_boundaries s) = b_start (s_boundaries t) \<and> chained (t # rest))"

definition boundaries_tile :: "ISection list \<Rightarrow> bool" where
  "boundaries_tile secs =
     (secs \<noteq> [] \<and> b_start (s_boundaries (hd secs)) = 0
      \<and> b_end (s_boundaries (last secs)) = 1
      \<and> list_all (\<lambda>s. b_start (s_boundaries s) < b_end (s_boundaries s)) secs
      \<and> chained secs)"

text \<open>
  The history invariant as the specification words it: the version numbers of the log
  are 1, 2, ..., n in this order.
\<close>

definition strictly_contiguous :: "int list \<Rightarrow> bool" where
  "strictly_contiguous vs = (vs = map int [1..<length vs + 1])"

text \<open>
  The history invariant the service keeps: the log is not empty, starts at version 1,
  ends at the design's version counter, and from one entry to the next the version
  number stays or grows by one.
\<close>

fun steps_ok :: "int list \<Rightarrow> bool" where
  "steps_ok [] = True"
| "steps_ok [v] = True"
| "steps_ok (v # w # vs) = ((w = v \<or> w = v + 1) \<and> steps_ok (w # vs))"

definition history_ok :: "IDesign \<Rightarrow> bool" where
  "history_ok d =
     (history d \<noteq> [] \<and> h_version (hd (history d)) = 1
      \<and> h_version (last (history d)) = version d
      \<and> steps_ok (map h_version (history d)))"

text \<open>
  A dangling section reference: some component names a section id that no section of
  the design has.
\<close>

definition has_dangling_section :: "ISection list \<Rightarrow> IComponent list \<Rightarrow> bool" where
  "has_dangling_section secs comps =
     list_ex (\<lambda>c. c_sectionId c \<notin> set (map s_id secs)) comps"

section \<open>Example data\<close>

definition ex_now :: "nat \<Rightarrow> date" where
  "ex_now k = 1700000000000 + k"

definition ex_oids :: "nat \<Rightarrow> oid" where
  "ex_oids k =
     (if k = 0 then ''650000000000000000000001''
      else if k = 1 then ''650000000000000000000002''
      else if k = 2 then ''650000000000000000000003''
      else ''650000000000000000000004'')"

definition ex_id :: oid where
  "ex_id = ''650000000000000000000004''"

definition ex_user :: string where
  "ex_user = ''64a000000000000000000001''"

text \<open>
  Data for \<open>createDesign\<close> that supplies the global settings, with a default material
  that is an ObjectId; the design a first \<open>createDesign\<close> with this data stores; and the
  store holding it.
\<close>

definition ex_globalSettings :: IGlobalSettings where
  "ex_globalSettings =
     \<lparr> defaultCuttingMethod = DIGITAL, defaultMaterial = ''650000000000000000000031'',
       scale = 1 \<rparr>"

definition ex_data :: IDesign_partial where
  "ex_data = empty_partial\<lparr> p_globalSettings := Some ex_globalSettings \<rparr>"

definition ex_design :: IDesign where
  "ex_design =
     \<lparr> d_id = ex_id, d_name = ''Untitled Design'', createdBy = ex_user,
       createdAt = ex_now 0, updatedAt = ex_now 1, isPublic = False,
       globalSettings = ex_globalSettings, sections = default_sections ex_oids,
       components = [], sectionConnections = [], finDesigns = [],
       massProperties = None, stabilityAnalysis = None, flightPerformance = None,
       performanceMetrics = Some default_performanceMetrics,
       templateSettings = Some default_templateSettings,
       qrCode = None, thumbnailUrl = None, version = 1,
       history =
         [\<lparr> h_version = 1, h_timestamp = ex_now 2, h_changes = ''Initial design creation'' \<rparr>] \<rparr>"

definition ex_store :: db where
  "ex_store = [ex_id \<mapsto> ex_design]"

text \<open>A patch that tries to set the four engine-controlled fields.\<close>

definition ex_forged_patch :: IDesign_partial where
  "ex_forged_patch =
     empty_partial
       \<lparr> p_name := Some ''Renamed'', p_createdBy := Some ''64a000000000000000000666'',
         p_createdAt := Some 0, p_version := Some 99, p_history := Some [] \<rparr>"

definition ex_calls :: "update_call list" where
  "ex_calls =
     [ \<lparr> uc_now = ex_now, uc_patch = ex_forged_patch, uc_description = None \<rparr>,
       \<lparr> uc_now = ex_now, uc_patch = empty_partial, uc_description = Some ''Moved fins'' \<rparr> ]"

text \<open>The example design after its owner toggled it public, and the run that gets there.\<close>

definition ex_design_toggled :: IDesign where
  "ex_design_toggled =
     ex_design
       \<lparr> updatedAt := ex_now 0, isPublic := True,
         history := history ex_design @
           [\<lparr> h_version = 1, h_timestamp = ex_now 1, h_changes = ''Made design public'' \<rparr>] \<rparr>"

definition ex_ops :: "operation list" where
  "ex_ops = [Create ex_now ex_oids ex_user ex_data, Toggle ex_now ex_id ex_user]"

text \<open>
  Two sections bounded [0, 0.3] and [0.4, 1] (a gap between them), and a component
  whose \<open>sectionId\<close> is the id of no section.
\<close>

definition ex_gap_sections :: "ISection list" where
  "ex_gap_sections =
     [ \<lparr> s_id = ''650000000000000000000011'', s_type = NOSECONE, s_name = ''Nosecone'',
         s_boundaries = \<lparr> b_start = 0, b_end = 0.3 \<rparr>, s_extra = [] \<rparr>,
       \<lparr> s_id = ''650000000000000000000012'', s_type = MAIN_BODY, s_name = ''Main Body'',
         s_boundaries = \<lparr> b_start = 0.4, b_end = 1.0 \<rparr>, s_extra = [] \<rparr> ]"

definition ex_component :: IComponent where
  "ex_component =
     \<lparr> c_id = ''650000000000000000000021'', c_type = FIN,
       c_sectionId = ''650000000000000000000099'', c_name = ''Fin'',
       c_material = \<lparr> mat_type = ''650000000000000000000031'', mat_thickness = 1,
                      mat_doubled = False \<rparr>,
       c_cuttingMethod = DIGITAL, c_bezierControls = [],
       c_position = \<lparr> pos_x = 0, pos_y = 0, pos_z = Some 0 \<rparr>,
       c_rotation = \<lparr> rot_x = 0, rot_y = 0, rot_z = 0 \<rparr>,
       c_symmetry = \<lparr> sym_enabled = False, sym_count = 1, sym_axis = ''central'' \<rparr>,
       c_linkedComponents = [], c_constraints = [], c_metadata = JNull \<rparr>"

definition ex_gap_patch :: IDesign_partial where
  "ex_gap_patch = empty_partial\<lparr> p_sections := Some ex_gap_sections \<rparr>"

definition ex_dangling_patch :: IDesign_partial where
  "ex_dangling_patch = empty_partial\<lparr> p_components := Some [ex_component] \<rparr>"

definition ex_clone_oids :: "nat \<Rightarrow> oid" where
  "ex_clone_oids k =
     (if k = 0 then ''650000000000000000000005''
      else if k = 1 then ''650000000000000000000006''
      else if k = 2 then ''650000000000000000000007''
      else ''650000000000000000000008'')"

text \<open>The clone of the example design that its owner's \<open>cloneDesign\<close> stores.\<close>

definition ex_clone :: IDesign where
  "ex_clone =
     ex_design
       \<lparr> d_id := ''650000000000000000000008'', d_name := ''Copy of Untitled Design'',
         createdAt := ex_now 3, updatedAt := ex_now 4,
         history :=
           [\<lparr> h_version = 1, h_timestamp = ex_now 5,
              h_changes = ''Initial design creation'' \<rparr>] \<rparr>"

text \<open>
  Export requests for the example design, one for \<open>svg\<close> and one for a format that is
  not supported; and three surroundings of the file service: storage configured and
  accepting uploads, storage configured and rejecting them, storage not configured.
\<close>

definition ex_template_request :: template_request where
  "ex_template_request =
     \<lparr> t_params_id = ex_id, t_query_format = Some ''svg'', t_user_id = ex_user \<rparr>"

definition ex_bad_request :: template_request where
  "ex_bad_request =
     \<lparr> t_params_id = ex_id, t_query_format = Some ''dxf'', t_user_id = ex_user \<rparr>"

definition ex_temp_path :: string where
  "ex_temp_path = ''/tmp/0b0e7a1c_650000000000000000000004.svg''"

definition ex_env_s3_up :: file_env where
  "ex_env_s3_up =
     \<lparr> env_aws = \<lparr> aws_region = ''eu-west-1'', aws_accessKeyId = ''AKIAEXAMPLE'',
                   aws_secretAccessKey = ''example-secret'',
                   aws_s3Bucket = ''rubyrokit-templates'' \<rparr>,
       env_tmpdir = ''/tmp'',
       env_uuid = (\<lambda>k. if k = 0 then ''0b0e7a1c'' else ''5d2f9c3e''),
       env_writable = (\<lambda>p. True),
       env_s3_upload = (\<lambda>p. Some (''https://s3.example/'' @ s3_Bucket p @ ''/'' @ s3_Key p)) \<rparr>"

definition ex_env_s3_down :: file_env where
  "ex_env_s3_down = ex_env_s3_up\<lparr> env_s3_upload := (\<lambda>p. None) \<rparr>"

definition ex_env_local :: file_env where
  "ex_env_local =
     ex_env_s3_up
       \<lparr> env_aws := \<lparr> aws_region = [], aws_accessKeyId = [], aws_secretAccessKey = [],
                      aws_s3Bucket = [] \<rparr> \<rparr>"

section \<open>Properties of the schema and the store\<close>

lemma cast_components_Cons:
  "cast_components (c # cs) =
     (case cast_component c of
        None \<Rightarrow> None
      | Some c' \<Rightarrow> map_option (Cons c') (cast_components cs))"
  by (simp add: cast_components_def split: option.splits)

lemma cast_components_keeps:
  "cast_components cs = Some cs' \<Longrightarrow>
     map c_id cs' = map c_id cs \<and> map c_sectionId cs' = map c_sectionId cs
     \<and> map c_name cs' = map c_name cs \<and> map c_type cs' = map c_type cs"
proof (induction cs arbitrary: cs')
  case Nil
  then show ?case by (simp add: cast_components_def)
next
  case (Cons c cs)
  from Cons.prems obtain c' rest where c: "cast_component c = Some c'"
    and r: "cast_components cs = Some rest" and e: "cs' = c' # rest"
    by (auto simp: cast_components_Cons split: option.splits)
  from c have "c_id c' = c_id c \<and> c_sectionId c' = c_sectionId c \<and> c_name c' = c_name c
      \<and> c_type c' = c_type c"
    by (auto simp: cast_component_def split: option.splits)
  with Cons.IH [OF r] e show ?case by simp
qed

text \<open>Where the material of a component is set apart, the cast does not look at the rest.\<close>

lemma cast_component_sectionId:
  "cast_component (c\<lparr> c_sectionId := x \<rparr>) = map_option (\<lambda>c'. c'\<lparr> c_sectionId := x \<rparr>) (cast_component c)"
  by (simp add: cast_component_def split: option.splits)

lemma cast_components_sectionId:
  "(cast_components (map (\<lambda>c. c\<lparr> c_sectionId := g c \<rparr>) cs) = None) = (cast_components cs = None)"
proof (induction cs)
  case Nil
  then show ?case by (simp add: cast_components_def)
next
  case (Cons c cs)
  then show ?case
    by (cases "cast_component c"; cases "cast_components cs";
        cases "cast_components (map (\<lambda>c. c\<lparr> c_sectionId := g c \<rparr>) cs)")
       (simp_all add: cast_components_Cons cast_component_sectionId)
qed

lemma cast_document_keeps:
  assumes "cast_document x = Some d"
  shows "d_id d = d_id x" and "sections d = sections x" and "isPublic d = isPublic x"
    and "version d = version x" and "history d = history x"
    and "sectionConnections d = sectionConnections x" and "finDesigns d = finDesigns x"
    and "castObjectId (createdBy x) = Some (createdBy d)"
    and "cast_components (components x) = Some (components d)"
    and "d_name d = trim (d_name x)"
  using assms by (auto simp: cast_document_def split: option.splits)

lemma cast_update_keeps:
  assumes "cast_update p = Some q"
  shows "p_sections q = p_sections p" and "p_isPublic q = p_isPublic p"
    and "p_version q = p_version p" and "p_history q = p_history p"
    and "p_createdAt q = p_createdAt p" and "p_updatedAt q = p_updatedAt p"
    and "p_createdBy p = None \<Longrightarrow> p_createdBy q = None"
    and "p_components p = None \<Longrightarrow> p_components q = None"
    and "\<And>cs. p_components p = Some cs \<Longrightarrow> cast_components cs = p_components q"
    and "p_name q = map_option trim (p_name p)"
  using assms by (auto simp: cast_update_def split: option.splits)

lemma resolve_id_key: "store i = Some d \<Longrightarrow> resolve_id store i = Some i"
  by (simp add: resolve_id_def)

lemma findById_key: "store i = Some d \<Longrightarrow> findById store i = Inr (Some d)"
  by (simp add: findById_def resolve_id_key)

section \<open>Properties of the design service\<close>

subsection \<open>Creation\<close>

lemma createDesign_accepted:
  assumes "createDesign store now oids u data = (store', Inr d)"
  shows "cast_document (new_Design now oids u data) = Some d" and "valid_document d"
    and "store (oids 3) = None" and "store' = store(oids 3 \<mapsto> d)"
proof -
  from assms have c: "cast_document (new_Design now oids u data) = Some d"
    and v: "valid_document d" and f: "store (d_id d) = None"
    and s: "store' = store(d_id d \<mapsto> d)"
    by (auto simp: createDesign_def save_def split: option.splits if_splits)
  have i: "d_id d = oids 3" using cast_document_keeps(1) [OF c] by (simp add: new_Design_def)
  show "cast_document (new_Design now oids u data) = Some d" by (rule c)
  show "valid_document d" by (rule v)
  show "store (oids 3) = None" using f i by simp
  show "store' = store(oids 3 \<mapsto> d)" using s i by simp
qed

lemma createDesign_result:
  assumes "createDesign store now oids u data = (store', Inr d)"
  shows "store (oids 3) = None" and "store' = store(oids 3 \<mapsto> d)" and "d_id d = oids 3"
    and "version d = 1"
    and "history d =
      [\<lparr> h_version = 1, h_timestamp = now 2, h_changes = ''Initial design creation'' \<rparr>]"
    and "castObjectId u = Some (createdBy d)"
    and "sections d = or_object (p_sections data) (default_sections oids)"
    and "isPublic d = or_bool (p_isPublic data) False"
  using createDesign_accepted(3,4) [OF assms]
    cast_document_keeps [OF createDesign_accepted(1) [OF assms]]
  by (simp_all add: new_Design_def)

lemma castObjectId_examples:
  "castObjectId ex_user = Some ex_user"
  "castObjectId ex_id = Some ex_id"
  "castObjectId ''650000000000000000000031'' = Some ''650000000000000000000031''"
  by (simp_all add: castObjectId_def isHexDigit_def toLowerCase_def ex_user_def ex_id_def)

lemma createDesign_example:
  "createDesign Map.empty ex_now ex_oids ex_user ex_data = (ex_store, Inr ex_design)"
proof -
  have n: "new_Design ex_now ex_oids ex_user ex_data = ex_design"
    by (simp add: new_Design_def ex_design_def ex_data_def empty_partial_def or_string_def
        or_bool_def or_object_def ex_oids_def ex_id_def)
  have t: "trim ''Untitled Design'' = ''Untitled Design''"
    by (simp add: trim_def isSpace_def)
  have g: "cast_globalSettings ex_globalSettings = Some ex_globalSettings"
    by (simp add: cast_globalSettings_def ex_globalSettings_def castObjectId_examples)
  have c: "cast_document ex_design = Some ex_design"
    by (simp add: cast_document_def ex_design_def g castObjectId_examples t
        cast_components_def)
  have v: "valid_document ex_design"
    by (simp add: valid_document_def ex_design_def default_sections_def valid_section_def
        ex_oids_def)
  show ?thesis
    by (simp add: createDesign_def n save_def c v) (simp add: ex_store_def ex_design_def)
qed

text \<open>
  The default material \<open>cardstock\<close> is no ObjectId, so a call that leaves the global
  settings to the default is refused by the schema, and nothing is stored.
\<close>

lemma createDesign_default_material_refused:
  assumes "p_globalSettings data = None"
  shows "createDesign store now oids u data = (store, Inl (ValidationError ''cast''))"
proof -
  have "cast_globalSettings default_globalSettings = None"
    by (simp add: cast_globalSettings_def default_globalSettings_def castObjectId_def)
  then have "cast_document (new_Design now oids u data) = None"
    using assms by (simp add: cast_document_def new_Design_def or_object_def split: option.splits)
  then show ?thesis by (simp add: createDesign_def save_def)
qed

text \<open>
  C10. When a \<open>createDesign\<close> call that supplies no sections creates a design, the design
  is stored under its new key and has exactly the three default sections nosecone,
  payload bay and main body, bounded [0, 0.2], [0.2, 0.5] and [0.5, 1]; these tile the
  body, each section ending where the next starts. The design has version 1 and one
  history entry, and it is public only if the caller supplied \<open>isPublic = true\<close>.
\<close>

theorem createDesign_default_sections_tile:
  assumes "p_sections designData = None"
    and "createDesign store now oids userId designData = (store', Inr d)"
  shows "store' = store(oids 3 \<mapsto> d)
     \<and> map s_type (sections d) = [NOSECONE, PAYLOAD_BAY, MAIN_BODY]
     \<and> map s_name (sections d) = [''Nosecone'', ''Payload Bay'', ''Main Body'']
     \<and> map s_boundaries (sections d) =
          [\<lparr>b_start = 0, b_end = 0.2\<rparr>, \<lparr>b_start = 0.2, b_end = 0.5\<rparr>,
           \<lparr>b_start = 0.5, b_end = 1\<rparr>]
     \<and> boundaries_tile (sections d)
     \<and> version d = 1 \<and> length (history d) = 1
     \<and> isPublic d = (p_isPublic designData = Some True)"
proof -
  note r = createDesign_result [OF assms(2)]
  have secs: "sections d = default_sections oids"
    by (simp add: r(7) assms(1) or_object_def)
  have pub: "isPublic d = (p_isPublic designData = Some True)"
    by (cases "p_isPublic designData") (simp_all add: r(8) or_bool_def)
  have tile: "boundaries_tile (default_sections oids)"
    by (simp add: boundaries_tile_def default_sections_def)
  show ?thesis
    using r(2) pub tile
    by (simp add: secs r(4,5)) (simp add: default_sections_def)
qed

theorem createDesign_default_sections_tile_witness:
  "p_sections ex_data = None
   \<and> createDesign Map.empty ex_now ex_oids ex_user ex_data = (ex_store, Inr ex_design)
   \<and> ex_store = [ex_oids 3 \<mapsto> ex_design]
   \<and> map s_boundaries (sections ex_design) =
        [\<lparr>b_start = 0, b_end = 0.2\<rparr>, \<lparr>b_start = 0.2, b_end = 0.5\<rparr>,
         \<lparr>b_start = 0.5, b_end = 1\<rparr>]
   \<and> boundaries_tile (sections ex_design)
   \<and> version ex_design = 1 \<and> length (history ex_design) = 1 \<and> \<not> isPublic ex_design"
proof -
  have h1: "p_sections ex_data = None" and h3: "p_isPublic ex_data = None"
    by (simp_all add: ex_data_def empty_partial_def)
  from createDesign_default_sections_tile [OF h1 createDesign_example]
  show ?thesis using h1 h3 createDesign_example by simp
qed

subsection \<open>Reading\<close>

lemma getDesignById_owner:
  "store i = Some d \<Longrightarrow> createdBy d = u \<Longrightarrow> getDesignById store i (Some u) = Inr (Some d)"
  by (simp add: getDesignById_def findById_key)

lemma getDesignById_found:
  assumes "getDesignById store i u = Inr (Some d)"
  shows "\<exists>k. resolve_id store i = Some k \<and> store k = Some d"
  using assms
  by (auto simp: getDesignById_def findById_def split: option.splits sum.splits if_splits)

lemma getDesignById_malformed:
  "store i = None \<Longrightarrow> castObjectId i = None \<Longrightarrow>
     getDesignById store i u = Inl (CastError ''_id'')"
  by (simp add: getDesignById_def findById_def resolve_id_def)

subsection \<open>Update\<close>

lemma findByIdAndUpdate_accepted:
  assumes "findByIdAndUpdate store i setDoc pushed = (store', Inr (Some d'))"
  shows "\<exists>k q d. resolve_id store i = Some k \<and> cast_update setDoc = Some q
     \<and> store k = Some d \<and> p_history q = None
     \<and> d' = (set_fields q d)\<lparr> history := history d @ [pushed] \<rparr>
     \<and> store' = store(k \<mapsto> d')"
  using assms
  by (auto simp: findByIdAndUpdate_def Let_def split: option.splits if_splits)

lemma findByIdAndUpdate_unchanged:
  "findByIdAndUpdate store i setDoc pushed = (store', r) \<Longrightarrow>
     (\<exists>d'. r = Inr (Some d')) \<or> store' = store"
  by (auto simp: findByIdAndUpdate_def Let_def split: option.splits if_splits)

lemma updateDesign_call:
  assumes "updateDesign store now i u p desc = (store', Inr (Some d'))"
  shows "\<exists>d. getDesignById store i (Some u) = Inr (Some d) \<and> createdBy d = u
     \<and> findByIdAndUpdate store i
          (p\<lparr> p_createdBy := None, p_createdAt := None, p_history := None,
              p_updatedAt := Some (now 0), p_version := Some (version d + 1) \<rparr>)
          \<lparr> h_version = version d + 1, h_timestamp = now 1,
            h_changes = or_object desc ''Design update'' \<rparr> = (store', Inr (Some d'))"
  using assms
  by (auto simp: updateDesign_def Let_def split: sum.splits option.splits if_splits)

lemma updateDesign_accepted:
  assumes "updateDesign store now i u p desc = (store', Inr (Some d'))"
  shows "\<exists>k d. resolve_id store i = Some k \<and> store k = Some d \<and> createdBy d = u
     \<and> store' = store(k \<mapsto> d')
     \<and> d_id d' = d_id d \<and> createdBy d' = createdBy d \<and> createdAt d' = createdAt d
     \<and> version d' = version d + 1
     \<and> history d' = history d @
          [\<lparr> h_version = version d + 1, h_timestamp = now 1,
             h_changes = or_object desc ''Design update'' \<rparr>]
     \<and> d_name d' = or_object (map_option trim (p_name p)) (d_name d)
     \<and> isPublic d' = or_object (p_isPublic p) (isPublic d)
     \<and> sections d' = or_object (p_sections p) (sections d)
     \<and> (case p_components p of
           None \<Rightarrow> components d' = components d
         | Some cs \<Rightarrow> cast_components cs = Some (components d'))"
proof -
  from updateDesign_call [OF assms] obtain d where
    g: "getDesignById store i (Some u) = Inr (Some d)" and own: "createdBy d = u"
    and f: "findByIdAndUpdate store i
          (p\<lparr> p_createdBy := None, p_createdAt := None, p_history := None,
              p_updatedAt := Some (now 0), p_version := Some (version d + 1) \<rparr>)
          \<lparr> h_version = version d + 1, h_timestamp = now 1,
            h_changes = or_object desc ''Design update'' \<rparr> = (store', Inr (Some d'))"
    by blast
  from getDesignById_found [OF g] obtain k where
    k: "resolve_id store i = Some k" and sk: "store k = Some d" by blast
  from findByIdAndUpdate_accepted [OF f] k sk obtain q where
    c: "cast_update (p\<lparr> p_createdBy := None, p_createdAt := None, p_history := None,
              p_updatedAt := Some (now 0), p_version := Some (version d + 1) \<rparr>) = Some q"
    and d': "d' = (set_fields q d)\<lparr> history := history d @
          [\<lparr> h_version = version d + 1, h_timestamp = now 1,
             h_changes = or_object desc ''Design update'' \<rparr>] \<rparr>"
    and s': "store' = store(k \<mapsto> d')"
    by auto
  note q = cast_update_keeps [OF c]
  have q1: "p_createdBy q = None" "p_createdAt q = None" "p_version q = Some (version d + 1)"
    "p_sections q = p_sections p" "p_isPublic q = p_isPublic p"
    "p_name q = map_option trim (p_name p)"
    using q(1-7,10) by simp_all
  have comps: "(case p_components p of
           None \<Rightarrow> components d' = components d
         | Some cs \<Rightarrow> cast_components cs = Some (components d'))"
  proof (cases "p_components p")
    case None
    with q(8) have "p_components q = None" by simp
    with None show ?thesis by (simp add: d' set_fields_def or_object_def)
  next
    case (Some cs)
    with q(9) [of cs] have e: "cast_components cs = p_components q" by simp
    from c Some obtain cs' where "p_components q = Some cs'"
      by (auto simp: cast_update_def split: option.splits)
    with e Some show ?thesis by (simp add: d' set_fields_def or_object_def)
  qed
  have "d_id d' = d_id d \<and> createdBy d' = createdBy d \<and> createdAt d' = createdAt d
     \<and> version d' = version d + 1
     \<and> history d' = history d @
          [\<lparr> h_version = version d + 1, h_timestamp = now 1,
             h_changes = or_object desc ''Design update'' \<rparr>]
     \<and> d_name d' = or_object (map_option trim (p_name p)) (d_name d)
     \<and> isPublic d' = or_object (p_isPublic p) (isPublic d)
     \<and> sections d' = or_object (p_sections p) (sections d)"
    by (simp add: d' set_fields_def q1) (simp add: or_object_def)
  with k sk own s' comps show ?thesis by blast
qed

text \<open>An update that is not accepted leaves the store as it was.\<close>

lemma updateDesign_refused:
  assumes "accepted_design (updateDesign store now i u p desc) = None"
  shows "fst (updateDesign store now i u p desc) = store"
proof (cases "updateDesign store now i u p desc")
  case (Pair store' r)
  from assms Pair have n: "\<not> (\<exists>d'. r = Inr (Some d'))"
    by (auto simp: accepted_design_def split: sum.splits option.splits)
  from Pair have "(\<exists>d'. r = Inr (Some d')) \<or> store' = store"
    by (auto simp: updateDesign_def Let_def
        dest: findByIdAndUpdate_unchanged split: sum.splits option.splits if_splits)
  with n Pair show ?thesis by simp
qed

lemma cast_update_plain:
  assumes "p_createdBy p = None" and "p_globalSettings p = None" and "p_components p = None"
  shows "cast_update p = Some (p\<lparr> p_name := map_option trim (p_name p) \<rparr>)"
  using assms by (cases p) (simp add: cast_update_def)

text \<open>
  An update by the owner that sets neither the global settings nor the components has
  nothing for the schema to refuse, and is accepted.
\<close>

lemma updateDesign_owner:
  assumes "store i = Some d" and "createdBy d = u"
    and "p_globalSettings p = None" and "p_components p = None"
  shows "\<exists>d'. updateDesign store now i u p desc = (store(i \<mapsto> d'), Inr (Some d'))"
  using assms
  by (simp add: updateDesign_def getDesignById_owner findByIdAndUpdate_def Let_def
      resolve_id_key cast_update_plain)

lemma updateDesign_strip:
  "updateDesign store now i u
     (p\<lparr> p_createdBy := cb, p_createdAt := ca, p_version := v, p_history := h \<rparr>) desc =
   updateDesign store now i u p desc"
  by (simp add: updateDesign_def Let_def split: sum.splits option.splits)

lemma updateDesign_result:
  assumes "store i = Some d"
    and "updateDesign store now i u p desc = (store', Inr (Some d'))"
  shows "createdBy d = u" and "store' = store(i \<mapsto> d')"
    and "createdBy d' = createdBy d" and "createdAt d' = createdAt d"
    and "version d' = version d + 1"
    and "history d' = history d @
          [\<lparr> h_version = version d + 1, h_timestamp = now 1,
             h_changes = or_object desc ''Design update'' \<rparr>]"
    and "d_name d' = or_object (map_option trim (p_name p)) (d_name d)"
    and "sections d' = or_object (p_sections p) (sections d)"
    and "d_id d' = d_id d"
  using updateDesign_accepted [OF assms(2)] resolve_id_key [of store i d, OF assms(1)] assms(1)
  by auto

lemma ex_store_lookup: "ex_store ex_id = Some ex_design"
  by (simp add: ex_store_def)

lemma ex_design_owner: "createdBy ex_design = ex_user"
  by (simp add: ex_design_def)

text \<open>
  C5. An accepted update leaves owner and creation time as stored, sets the version to
  the stored version plus one and appends the engine's own history entry; and whatever
  values the patch carries for \<open>createdBy\<close>, \<open>createdAt\<close>, \<open>version\<close> and \<open>history\<close>,
  the call has the same outcome, so these are ignored and their presence fails nothing.
\<close>

theorem updateDesign_ignores_engine_fields:
  assumes "store i = Some d"
    and "updateDesign store now i u p desc = (store', Inr (Some d'))"
  shows "createdBy d' = createdBy d \<and> createdAt d' = createdAt d
     \<and> version d' = version d + 1
     \<and> history d' = history d @
          [\<lparr> h_version = version d + 1, h_timestamp = now 1,
             h_changes = or_object desc ''Design update'' \<rparr>]
     \<and> updateDesign store now i u
          (p\<lparr> p_createdBy := cb, p_createdAt := ca, p_version := v, p_history := h \<rparr>)
          desc = (store', Inr (Some d'))"
  using updateDesign_result(3-6) [OF assms] assms(2) by (simp add: updateDesign_strip)

theorem updateDesign_ignores_engine_fields_witness:
  "ex_store ex_id = Some ex_design
   \<and> (\<exists>store' d'.
        updateDesign ex_store ex_now ex_id ex_user ex_forged_patch None
          = (store', Inr (Some d'))
        \<and> createdBy d' = ex_user \<and> createdAt d' = ex_now 0 \<and> version d' = 2
        \<and> map h_version (history d') = [1, 2] \<and> d_name d' = ''Renamed'')"
proof -
  have plain: "p_globalSettings ex_forged_patch = None" "p_components ex_forged_patch = None"
    by (simp_all add: ex_forged_patch_def empty_partial_def)
  obtain d' where h2:
    "updateDesign ex_store ex_now ex_id ex_user ex_forged_patch None
       = (ex_store(ex_id \<mapsto> d'), Inr (Some d'))"
    using updateDesign_owner [of ex_store ex_id ex_design ex_user ex_forged_patch ex_now None]
      ex_store_lookup ex_design_owner plain
    by blast
  from updateDesign_ignores_engine_fields
         [of ex_store ex_id ex_design ex_now ex_user ex_forged_patch None
             "ex_store(ex_id \<mapsto> d')" d', OF ex_store_lookup h2]
  have "createdBy d' = ex_user" "createdAt d' = ex_now 0" "version d' = 2"
    "map h_version (history d') = [1, 2]"
    by (simp_all add: ex_design_def)
  moreover have "d_name d' = ''Renamed''"
    using updateDesign_result(7) [OF ex_store_lookup h2]
    by (simp add: or_object_def ex_forged_patch_def trim_def isSpace_def)
  ultimately have "updateDesign ex_store ex_now ex_id ex_user ex_forged_patch None
          = (ex_store(ex_id \<mapsto> d'), Inr (Some d'))
        \<and> createdBy d' = ex_user \<and> createdAt d' = ex_now 0 \<and> version d' = 2
        \<and> map h_version (history d') = [1, 2] \<and> d_name d' = ''Renamed''"
    using h2 by simp
  then show ?thesis using ex_store_lookup
    by - (rule conjI, assumption, rule exI, rule exI, assumption)
qed

subsection \<open>Sequences of updates\<close>

lemma run_updates_props:
  assumes "store i = Some d" and "run_updates store i u cs d = Some (store', d')"
  shows "store' i = Some d' \<and> version d' = version d + int (length cs)
     \<and> map h_changes (history d') =
         map h_changes (history d) @ map (\<lambda>c. or_object (uc_description c) ''Design update'') cs
     \<and> map h_version (history d') =
         map h_version (history d) @ map (\<lambda>k. version d + 1 + int k) [0..<length cs]"
  using assms
proof (induction cs arbitrary: store d)
  case Nil
  then show ?case by simp
next
  case (Cons c cs)
  from Cons.prems(2) obtain s1 d1 where
    up: "updateDesign store (uc_now c) i u (uc_patch c) (uc_description c) = (s1, Inr (Some d1))"
    and rest: "run_updates s1 i u cs d1 = Some (store', d')"
    by (auto split: prod.splits sum.splits option.splits)
  note r = updateDesign_result [OF Cons.prems(1) up]
  have s1: "s1 i = Some d1" by (simp add: r(2))
  have v1: "version d1 = version d + 1" by (rule r(5))
  have h1: "history d1 = history d @
      [\<lparr> h_version = version d + 1, h_timestamp = uc_now c 1,
         h_changes = or_object (uc_description c) ''Design update'' \<rparr>]"
    by (rule r(6))
  have shift: "map (\<lambda>k. version d + 1 + int k) [0..<Suc (length cs)] =
      (version d + 1) # map (\<lambda>k. version d1 + 1 + int k) [0..<length cs]"
    by (simp add: upt_conv_Cons map_Suc_upt [symmetric] v1 del: upt_Suc)
  from Cons.IH [OF s1 rest] show ?case
    by (simp add: v1 h1 shift del: upt_Suc)
qed

text \<open>
  The owner's updates that set neither global settings nor components are all
  accepted: a run of them never stops early.
\<close>

lemma run_updates_owner:
  "store i = Some d \<Longrightarrow> createdBy d = u \<Longrightarrow>
   list_all (\<lambda>c. p_globalSettings (uc_patch c) = None \<and> p_components (uc_patch c) = None) cs \<Longrightarrow>
   \<exists>r. run_updates store i u cs d = Some r"
proof (induction cs arbitrary: store d)
  case Nil
  then show ?case by simp
next
  case (Cons c cs)
  from Cons.prems(3) have plain: "p_globalSettings (uc_patch c) = None"
    "p_components (uc_patch c) = None"
    and rest: "list_all (\<lambda>c. p_globalSettings (uc_patch c) = None
        \<and> p_components (uc_patch c) = None) cs"
    by simp_all
  obtain d1 where up: "updateDesign store (uc_now c) i u (uc_patch c) (uc_description c) =
      (store(i \<mapsto> d1), Inr (Some d1))"
    using updateDesign_owner [of store i d u "uc_patch c" "uc_now c" "uc_description c"]
      Cons.prems(1,2) plain
    by blast
  have own1: "createdBy d1 = u"
    using updateDesign_result(1,3) [OF Cons.prems(1) up] by simp
  have s1: "(store(i \<mapsto> d1)) i = Some d1" by simp
  from Cons.IH [of "store(i \<mapsto> d1)" d1, OF s1 own1 rest]
  obtain r where "run_updates (store(i \<mapsto> d1)) i u cs d1 = Some r" by blast
  then show ?case by (simp add: up)
qed

lemma versions_from_one:
  "map int [Suc 0..<Suc (Suc n)] = 1 # map (\<lambda>k. 2 + int k) [0..<n]"
  by (induction n) simp_all

text \<open>
  C2. A design as \<open>createDesign\<close> stores it has version 1 and one history entry. After
  any sequence of n accepted updates of it, its version is 1 + n and its history has
  n + 1 entries, numbered 1, ..., n + 1: the creation entry, then one entry per update
  that carries the update's change description, or \<open>Design update\<close> when the caller
  gave none.
\<close>

theorem updateDesign_version_counts_updates:
  assumes "createDesign store0 now0 oids u data = (store1, Inr d0)"
    and "run_updates store1 (d_id d0) u cs d0 = Some (store2, d)"
  shows "version d0 = 1 \<and> length (history d0) = 1
     \<and> version d = 1 + int (length cs) \<and> length (history d) = length cs + 1
     \<and> map h_version (history d) = map int [1..<length cs + 2]
     \<and> map h_changes (history d) =
         ''Initial design creation''
           # map (\<lambda>c. case uc_description c of None \<Rightarrow> ''Design update'' | Some s \<Rightarrow> s) cs"
proof -
  note c = createDesign_result [OF assms(1)]
  have s1: "store1 (d_id d0) = Some d0" by (simp add: c(2,3))
  note p = run_updates_props [OF s1 assms(2)]
  have len: "length (history d) = length cs + 1"
  proof -
    have "length (map h_changes (history d)) = length cs + 1"
      using p by (simp add: c(5))
    then show ?thesis by simp
  qed
  have vs: "map h_version (history d) = map int [1..<length cs + 2]"
    using p by (simp add: c(4,5) versions_from_one del: upt_Suc)
  have ch: "map h_changes (history d) =
         ''Initial design creation''
           # map (\<lambda>c. case uc_description c of None \<Rightarrow> ''Design update'' | Some s \<Rightarrow> s) cs"
    using p by (simp add: c(5) or_object_def)
  show ?thesis using p len vs ch by (simp add: c(4,5))
qed

theorem updateDesign_version_counts_updates_witness:
  "createDesign Map.empty ex_now ex_oids ex_user ex_data = (ex_store, Inr ex_design)
   \<and> (\<exists>store2 d.
        run_updates ex_store (d_id ex_design) ex_user ex_calls ex_design = Some (store2, d)
        \<and> version d = 3 \<and> length (history d) = 3
        \<and> map h_changes (history d) =
            [''Initial design creation'', ''Design update'', ''Moved fins''])"
proof -
  have i: "d_id ex_design = ex_id" by (simp add: ex_design_def)
  have plain: "list_all (\<lambda>c. p_globalSettings (uc_patch c) = None
      \<and> p_components (uc_patch c) = None) ex_calls"
    by (simp add: ex_calls_def ex_forged_patch_def empty_partial_def)
  from run_updates_owner [of ex_store ex_id ex_design ex_user ex_calls]
    ex_store_lookup ex_design_owner plain
  obtain store2 d where r:
    "run_updates ex_store (d_id ex_design) ex_user ex_calls ex_design = Some (store2, d)"
    by (auto simp: i)
  from updateDesign_version_counts_updates [OF createDesign_example r]
  have "run_updates ex_store (d_id ex_design) ex_user ex_calls ex_design = Some (store2, d)
        \<and> version d = 3 \<and> length (history d) = 3
        \<and> map h_changes (history d) =
            [''Initial design creation'', ''Design update'', ''Moved fins'']"
    using r by (simp add: ex_calls_def)
  then show ?thesis using createDesign_example
    by - (rule conjI, assumption, rule exI, rule exI, assumption)
qed

text \<open>
  Through the controller, an accepted update is answered with status 200 and the
  updated design, and its history entry carries the description of the request, or
  \<open>Design update\<close> for a request with no description or an empty one.
\<close>

lemma DesignController_updateDesign_accepted:
  assumes "store i = Some d"
    and "updateDesign store now i u p (Some (or_string desc ''Design update''))
           = (store', Inr (Some d'))"
  shows "DesignController_updateDesign store now []
            \<lparr> u_params_id = i, u_user_id = u, u_changeDescription = desc, u_updateData = p \<rparr>
          = (store',
             \<lparr> res_status = 200, res_body = MessageDesign ''Design updated successfully'' d' \<rparr>)
       \<and> version d' = version d + 1
       \<and> history d' = history d @
            [\<lparr> h_version = version d + 1, h_timestamp = now 1,
               h_changes = or_string desc ''Design update'' \<rparr>]"
  using updateDesign_result(5,6) [OF assms] assms(2)
  by (simp add: DesignController_updateDesign_def or_object_def)

subsection \<open>Visibility toggle\<close>

lemma set_fields_toggle:
  "set_fields (empty_partial\<lparr> p_isPublic := Some b, p_updatedAt := Some t \<rparr>) d =
     d\<lparr> updatedAt := t, isPublic := b \<rparr>"
  by (cases d) (simp add: set_fields_def empty_partial_def or_object_def)

lemma cast_update_toggle:
  "cast_update (empty_partial\<lparr> p_isPublic := Some b, p_updatedAt := Some t \<rparr>) =
     Some (empty_partial\<lparr> p_isPublic := Some b, p_updatedAt := Some t \<rparr>)"
  by (simp add: cast_update_def empty_partial_def)

lemma findByIdAndUpdate_toggle:
  assumes "resolve_id store i = Some k" and "store k = Some d"
  shows "findByIdAndUpdate store i (empty_partial\<lparr> p_isPublic := Some b, p_updatedAt := Some t \<rparr>)
           e =
     (store(k \<mapsto> d\<lparr> updatedAt := t, isPublic := b, history := history d @ [e] \<rparr>),
      Inr (Some (d\<lparr> updatedAt := t, isPublic := b, history := history d @ [e] \<rparr>)))"
  using assms
  by (simp add: findByIdAndUpdate_def cast_update_toggle set_fields_toggle Let_def)
     (simp add: empty_partial_def)

lemma togglePublicStatus_owner:
  assumes "store i = Some d" and "createdBy d = u"
  shows "togglePublicStatus store now i u =
     (let d' = d\<lparr> updatedAt := now 0, isPublic := \<not> isPublic d,
                  history := history d @
                    [\<lparr> h_version = version d, h_timestamp = now 1,
                       h_changes = (if \<not> isPublic d then ''Made design public''
                                    else ''Made design private'') \<rparr>] \<rparr>
      in (store(i \<mapsto> d'), Inr (Some d')))"
  using assms resolve_id_key [of store i d]
  by (simp add: togglePublicStatus_def getDesignById_owner findByIdAndUpdate_toggle Let_def)

lemma togglePublicStatus_accepted:
  assumes "togglePublicStatus store now i u = (store', Inr (Some d'))"
  shows "\<exists>k d e. resolve_id store i = Some k \<and> store k = Some d \<and> createdBy d = u
     \<and> store' = store(k \<mapsto> d') \<and> version d' = version d \<and> d_id d' = d_id d
     \<and> history d' = history d @ [e] \<and> h_version e = version d"
proof -
  from assms obtain d where g: "getDesignById store i (Some u) = Inr (Some d)"
    and own: "createdBy d = u"
    and f: "findByIdAndUpdate store i
              (empty_partial\<lparr> p_isPublic := Some (\<not> isPublic d), p_updatedAt := Some (now 0) \<rparr>)
              \<lparr> h_version = version d, h_timestamp = now 1,
                h_changes = (if \<not> isPublic d then ''Made design public''
                             else ''Made design private'') \<rparr> = (store', Inr (Some d'))"
    by (auto simp: togglePublicStatus_def Let_def split: sum.splits option.splits if_splits)
  from getDesignById_found [OF g] obtain k where
    k: "resolve_id store i = Some k" and sk: "store k = Some d" by blast
  from f have "store' = store(k \<mapsto> d') \<and> version d' = version d \<and> d_id d' = d_id d
     \<and> history d' = history d @ [\<lparr> h_version = version d, h_timestamp = now 1,
                h_changes = (if \<not> isPublic d then ''Made design public''
                             else ''Made design private'') \<rparr>]"
    by (auto simp: findByIdAndUpdate_toggle [OF k sk])
  with k sk own show ?thesis by auto
qed

lemma toggle_example:
  "togglePublicStatus ex_store ex_now ex_id ex_user =
     ([ex_id \<mapsto> ex_design_toggled], Inr (Some ex_design_toggled))"
  using togglePublicStatus_owner [of ex_store ex_id ex_design ex_user ex_now]
    ex_store_lookup ex_design_owner
  by (simp add: Let_def ex_design_toggled_def) (simp add: ex_design_def ex_store_def)

text \<open>
  C4. On any stored design, two successive toggles by its owner are both accepted; the
  first flips \<open>isPublic\<close> and the second restores it; the version counter is the same
  after each; and each toggle appends one history entry numbered with the current
  version, not the next one.
\<close>

theorem togglePublicStatus_twice:
  assumes "store i = Some d" and "createdBy d = u"
  shows "\<exists>store1 d1 store2 d2.
       togglePublicStatus store now1 i u = (store1, Inr (Some d1))
     \<and> togglePublicStatus store1 now2 i u = (store2, Inr (Some d2))
     \<and> isPublic d1 = (\<not> isPublic d) \<and> isPublic d2 = isPublic d
     \<and> version d1 = version d \<and> version d2 = version d
     \<and> map h_version (history d1) = map h_version (history d) @ [version d]
     \<and> map h_version (history d2) = map h_version (history d1) @ [version d1]"
proof -
  define d1 where "d1 = d\<lparr> updatedAt := now1 0, isPublic := \<not> isPublic d,
                  history := history d @
                    [\<lparr> h_version = version d, h_timestamp = now1 1,
                       h_changes = (if \<not> isPublic d then ''Made design public''
                                    else ''Made design private'') \<rparr>] \<rparr>"
  have t1: "togglePublicStatus store now1 i u = (store(i \<mapsto> d1), Inr (Some d1))"
    using togglePublicStatus_owner [of store i d u now1] assms by (simp add: d1_def Let_def)
  have s1: "(store(i \<mapsto> d1)) i = Some d1" by simp
  have o1: "createdBy d1 = u" using assms(2) by (simp add: d1_def)
  obtain store2 d2 where
    t2: "togglePublicStatus (store(i \<mapsto> d1)) now2 i u = (store2, Inr (Some d2))"
    and d2: "d2 = d1\<lparr> updatedAt := now2 0, isPublic := \<not> isPublic d1,
                  history := history d1 @
                    [\<lparr> h_version = version d1, h_timestamp = now2 1,
                       h_changes = (if \<not> isPublic d1 then ''Made design public''
                                    else ''Made design private'') \<rparr>] \<rparr>"
    using togglePublicStatus_owner [of "store(i \<mapsto> d1)" i d1 u now2] o1
    by (simp add: Let_def)
  have "isPublic d1 = (\<not> isPublic d)" "version d1 = version d"
    "map h_version (history d1) = map h_version (history d) @ [version d]"
    by (simp_all add: d1_def)
  moreover have "isPublic d2 = (\<not> isPublic d1)" "version d2 = version d1"
    "map h_version (history d2) = map h_version (history d1) @ [version d1]"
    by (simp_all add: d2)
  ultimately show ?thesis using t1 t2 by auto
qed

theorem togglePublicStatus_twice_witness:
  "ex_store ex_id = Some ex_design \<and> createdBy ex_design = ex_user
   \<and> (\<exists>store1 d1 store2 d2.
       togglePublicStatus ex_store ex_now ex_id ex_user = (store1, Inr (Some d1))
     \<and> togglePublicStatus store1 ex_now ex_id ex_user = (store2, Inr (Some d2))
     \<and> isPublic d1 \<and> \<not> isPublic d2 \<and> version d1 = 1 \<and> version d2 = 1
     \<and> map h_version (history d1) = [1, 1]
     \<and> map h_version (history d2) = [1, 1, 1])"
proof -
  from togglePublicStatus_twice
         [of ex_store ex_id ex_design ex_user ex_now ex_now, OF ex_store_lookup ex_design_owner]
  obtain store1 d1 store2 d2 where
    "togglePublicStatus ex_store ex_now ex_id ex_user = (store1, Inr (Some d1))
     \<and> togglePublicStatus store1 ex_now ex_id ex_user = (store2, Inr (Some d2))
     \<and> isPublic d1 = (\<not> isPublic ex_design) \<and> isPublic d2 = isPublic ex_design
     \<and> version d1 = version ex_design \<and> version d2 = version ex_design
     \<and> map h_version (history d1) = map h_version (history ex_design) @ [version ex_design]
     \<and> map h_version (history d2) = map h_version (history d1) @ [version d1]"
    by blast
  then have "togglePublicStatus ex_store ex_now ex_id ex_user = (store1, Inr (Some d1))
     \<and> togglePublicStatus store1 ex_now ex_id ex_user = (store2, Inr (Some d2))
     \<and> isPublic d1 \<and> \<not> isPublic d2 \<and> version d1 = 1 \<and> version d2 = 1
     \<and> map h_version (history d1) = [1, 1]
     \<and> map h_version (history d2) = [1, 1, 1]"
    by (simp add: ex_design_def)
  then have "\<exists>store1 d1 store2 d2.
       togglePublicStatus ex_store ex_now ex_id ex_user = (store1, Inr (Some d1))
     \<and> togglePublicStatus store1 ex_now ex_id ex_user = (store2, Inr (Some d2))
     \<and> isPublic d1 \<and> \<not> isPublic d2 \<and> version d1 = 1 \<and> version d2 = 1
     \<and> map h_version (history d1) = [1, 1]
     \<and> map h_version (history d2) = [1, 1, 1]"
    by - (rule exI, rule exI, rule exI, rule exI, assumption)
  then show ?thesis using ex_store_lookup ex_design_owner by simp
qed

subsection \<open>Clone\<close>

lemma cloneDesign_accepted:
  assumes "cloneDesign store now oids i u newName = (store', Inr (Some d'))"
  shows "\<exists>d data. getDesignById store i (Some u) = Inr (Some d)
      \<and> createDesign store (\<lambda>k. now (k + 3)) oids u data = (store', Inr d')
      \<and> p_isPublic data = Some False \<and> p_sections data = Some (sections d)
      \<and> p_components data = Some (components d)
      \<and> p_sectionConnections data = Some (sectionConnections d)
      \<and> p_finDesigns data = Some (finDesigns d)"
  using assms
  by (auto simp: cloneDesign_def Let_def toObject_def
      split: sum.splits option.splits prod.splits)

text \<open>
  What an accepted clone is: a new document under a new key, version 1, one history
  entry, private, owned by the cloning user, with the source's sections, connections
  and fin designs, and the source's components as the schema casts them, their ids and
  section ids as in the source.
\<close>

lemma cloneDesign_result:
  assumes "cloneDesign store now oids i u newName = (store', Inr (Some d'))"
  shows "\<exists>d. getDesignById store i (Some u) = Inr (Some d)
     \<and> store' = store(oids 3 \<mapsto> d') \<and> d_id d' = oids 3 \<and> version d' = 1
     \<and> history d' =
         [\<lparr> h_version = 1, h_timestamp = now 5, h_changes = ''Initial design creation'' \<rparr>]
     \<and> \<not> isPublic d' \<and> castObjectId u = Some (createdBy d')
     \<and> sections d' = sections d
     \<and> cast_components (components d) = Some (components d')
     \<and> map c_id (components d') = map c_id (components d)
     \<and> map c_sectionId (components d') = map c_sectionId (components d)
     \<and> sectionConnections d' = sectionConnections d \<and> finDesigns d' = finDesigns d"
proof -
  from cloneDesign_accepted [OF assms] obtain d data where
    g: "getDesignById store i (Some u) = Inr (Some d)"
    and c: "createDesign store (\<lambda>k. now (k + 3)) oids u data = (store', Inr d')"
    and data: "p_isPublic data = Some False" "p_sections data = Some (sections d)"
      "p_components data = Some (components d)"
      "p_sectionConnections data = Some (sectionConnections d)"
      "p_finDesigns data = Some (finDesigns d)"
    by blast
  note r = createDesign_result [OF c]
  note k = cast_document_keeps [OF createDesign_accepted(1) [OF c]]
  have cc: "cast_components (components d) = Some (components d')"
    using k(9) by (simp add: new_Design_def data or_object_def)
  have "sectionConnections d' = sectionConnections d" "finDesigns d' = finDesigns d"
    using k(6,7) by (simp_all add: new_Design_def data or_object_def)
  moreover have "sections d' = sections d" "\<not> isPublic d'"
    using r(7,8) by (simp_all add: data or_object_def or_bool_def)
  ultimately show ?thesis
    using g r(2-6) cc cast_components_keeps [OF cc] by simp
qed

lemma cloneDesign_example:
  "cloneDesign ex_store ex_now ex_clone_oids ex_id ex_user None =
     (ex_store(''650000000000000000000008'' \<mapsto> ex_clone), Inr (Some ex_clone))"
proof -
  have g: "getDesignById ex_store ex_id (Some ex_user) = Inr (Some ex_design)"
    by (rule getDesignById_owner [of ex_store ex_id ex_design ex_user,
          OF ex_store_lookup ex_design_owner])
  have n: "new_Design (\<lambda>k. ex_now (k + 3)) ex_clone_oids ex_user
      ((toObject ex_design)
         \<lparr> p_name := Some (or_string None (''Copy of '' @ d_name ex_design)),
           p_createdBy := Some ex_user, p_createdAt := Some (ex_now 0),
           p_updatedAt := Some (ex_now 1), p_isPublic := Some False, p_version := Some 1,
           p_history := Some
             [\<lparr> h_version = 1, h_timestamp = ex_now 2,
                h_changes = ''Cloned from design '' @ ex_id \<rparr>] \<rparr>) = ex_clone"
    by (simp add: new_Design_def toObject_def or_string_def or_bool_def or_object_def
        ex_clone_def ex_design_def ex_clone_oids_def)
  have t: "trim ''Copy of Untitled Design'' = ''Copy of Untitled Design''"
    by (simp add: trim_def isSpace_def)
  have gs: "cast_globalSettings ex_globalSettings = Some ex_globalSettings"
    by (simp add: cast_globalSettings_def ex_globalSettings_def castObjectId_examples)
  have c: "cast_document ex_clone = Some ex_clone"
    by (simp add: cast_document_def ex_clone_def ex_design_def gs castObjectId_examples t
        cast_components_def)
  have v: "valid_document ex_clone"
    by (simp add: valid_document_def ex_clone_def ex_design_def default_sections_def
        valid_section_def ex_oids_def)
  have f: "ex_store ''650000000000000000000008'' = None"
    "d_id ex_clone = ''650000000000000000000008''"
    by (simp_all add: ex_store_def ex_clone_def ex_id_def)
  have cr: "createDesign ex_store (\<lambda>k. ex_now (k + 3)) ex_clone_oids ex_user
      ((toObject ex_design)
         \<lparr> p_name := Some (or_string None (''Copy of '' @ d_name ex_design)),
           p_createdBy := Some ex_user, p_createdAt := Some (ex_now 0),
           p_updatedAt := Some (ex_now 1), p_isPublic := Some False, p_version := Some 1,
           p_history := Some
             [\<lparr> h_version = 1, h_timestamp = ex_now 2,
                h_changes = ''Cloned from design '' @ ex_id \<rparr>] \<rparr>) =
      (ex_store(''650000000000000000000008'' \<mapsto> ex_clone), Inr ex_clone)"
    unfolding createDesign_def n by (simp add: save_def c v f)
  show ?thesis
    by (simp only: cloneDesign_def g sum.case option.case Let_def cr prod.case)
qed

subsection \<open>The history log\<close>

lemma steps_ok_snoc:
  "vs \<noteq> [] \<Longrightarrow> steps_ok vs \<Longrightarrow> w = last vs \<or> w = last vs + 1 \<Longrightarrow> steps_ok (vs @ [w])"
  by (induction vs rule: steps_ok.induct) auto

lemma history_ok_created:
  "createDesign store now oids u data = (store', Inr d) \<Longrightarrow> history_ok d"
  using createDesign_result(4,5) [of store now oids u data store' d]
  by (simp add: history_ok_def)

lemma history_ok_snoc:
  assumes "history_ok d" and "history d' = history d @ [e]"
    and "h_version e = version d'" and "version d' = version d \<or> version d' = version d + 1"
  shows "history_ok d'"
proof -
  from assms(1) have ne: "history d \<noteq> []" and hd1: "h_version (hd (history d)) = 1"
    and lst: "h_version (last (history d)) = version d"
    and st: "steps_ok (map h_version (history d))"
    by (simp_all add: history_ok_def)
  have "last (map h_version (history d)) = version d"
    using ne lst by (simp add: last_map)
  then have "steps_ok (map h_version (history d) @ [h_version e])"
    using steps_ok_snoc [of "map h_version (history d)" "h_version e"] ne st assms(3,4)
    by auto
  then show ?thesis using ne hd1 assms(2,3) by (simp add: history_ok_def)
qed

lemma apply_op_invariant:
  assumes inv: "\<forall>i d. store i = Some d \<longrightarrow> history_ok d"
    and step: "apply_op store x = Some store'"
  shows "\<forall>i d. store' i = Some d \<longrightarrow> history_ok d"
proof (cases x)
  case (Create now oids u data)
  with step obtain d where c: "createDesign store now oids u data = (store', Inr d)"
    by (auto split: prod.splits sum.splits)
  from createDesign_result(2) [OF c] history_ok_created [OF c] inv
  show ?thesis by auto
next
  case (Update now i u p desc)
  with step obtain d' where up: "updateDesign store now i u p desc = (store', Inr (Some d'))"
    by (auto split: prod.splits sum.splits option.splits)
  from updateDesign_accepted [OF up] obtain k d where s: "store k = Some d"
    and s': "store' = store(k \<mapsto> d')" and v: "version d' = version d + 1"
    and h: "history d' = history d @
          [\<lparr> h_version = version d + 1, h_timestamp = now 1,
             h_changes = or_object desc ''Design update'' \<rparr>]"
    by blast
  have "history_ok d'"
    by (rule history_ok_snoc [OF _ h]) (use inv s v in auto)
  with s' inv show ?thesis by auto
next
  case (Clone now oids i u newName)
  with step obtain d' where
    cl: "cloneDesign store now oids i u newName = (store', Inr (Some d'))"
    by (auto split: prod.splits sum.splits option.splits)
  from cloneDesign_accepted [OF cl] obtain data where
    c: "createDesign store (\<lambda>k. now (k + 3)) oids u data = (store', Inr d')" by blast
  from createDesign_result(2) [OF c] history_ok_created [OF c] inv
  show ?thesis by auto
next
  case (Toggle now i u)
  with step obtain d' where tg: "togglePublicStatus store now i u = (store', Inr (Some d'))"
    by (auto split: prod.splits sum.splits option.splits)
  from togglePublicStatus_accepted [OF tg] obtain k d e where s: "store k = Some d"
    and s': "store' = store(k \<mapsto> d')" and v: "version d' = version d"
    and e: "history d' = history d @ [e]" "h_version e = version d"
    by blast
  have "history_ok d'"
    by (rule history_ok_snoc [of d d' e]) (use inv s e v in auto)
  with s' inv show ?thesis by auto
qed

lemma apply_op_appends:
  assumes step: "apply_op store x = Some store'" and s: "store i = Some d"
  shows "\<exists>d'. store' i = Some d' \<and> prefix (history d) (history d')"
proof (cases x)
  case (Create now oids u data)
  with step obtain dn where c: "createDesign store now oids u data = (store', Inr dn)"
    by (auto split: prod.splits sum.splits)
  from createDesign_result(1,2) [OF c] s show ?thesis by auto
next
  case (Update now j u p desc)
  with step obtain d' where up: "updateDesign store now j u p desc = (store', Inr (Some d'))"
    by (auto split: prod.splits sum.splits option.splits)
  from updateDesign_accepted [OF up] obtain k dk where sk: "store k = Some dk"
    and s': "store' = store(k \<mapsto> d')"
    and h: "history d' = history dk @
          [\<lparr> h_version = version dk + 1, h_timestamp = now 1,
             h_changes = or_object desc ''Design update'' \<rparr>]"
    by blast
  then show ?thesis using s by (cases "i = k") auto
next
  case (Clone now oids j u newName)
  with step obtain d' where
    cl: "cloneDesign store now oids j u newName = (store', Inr (Some d'))"
    by (auto split: prod.splits sum.splits option.splits)
  from cloneDesign_accepted [OF cl] obtain data where
    c: "createDesign store (\<lambda>k. now (k + 3)) oids u data = (store', Inr d')" by blast
  from createDesign_result(1,2) [OF c] s show ?thesis by auto
next
  case (Toggle now j u)
  with step obtain d' where tg: "togglePublicStatus store now j u = (store', Inr (Some d'))"
    by (auto split: prod.splits sum.splits option.splits)
  from togglePublicStatus_accepted [OF tg] obtain k dk e where sk: "store k = Some dk"
    and s': "store' = store(k \<mapsto> d')" and e: "history d' = history dk @ [e]"
    by blast
  then show ?thesis using s by (cases "i = k") auto
qed

lemma run_ops_invariant:
  "\<forall>i d. store i = Some d \<longrightarrow> history_ok d \<Longrightarrow> run_ops store ops = Some st
     \<Longrightarrow> \<forall>i d. st i = Some d \<longrightarrow> history_ok d"
proof (induction ops arbitrary: store)
  case Nil
  then show ?case by simp
next
  case (Cons x xs)
  from Cons.prems(2) obtain s1 where a: "apply_op store x = Some s1"
    and r: "run_ops s1 xs = Some st"
    by (auto split: option.splits)
  from apply_op_invariant [OF Cons.prems(1) a] have "\<forall>i d. s1 i = Some d \<longrightarrow> history_ok d" .
  from Cons.IH [OF this r] show ?case .
qed

lemma run_ops_example: "run_ops Map.empty ex_ops = Some [ex_id \<mapsto> ex_design_toggled]"
  by (simp add: ex_ops_def createDesign_example toggle_example)

text \<open>
  C6, as the specification states it, fails: a visibility toggle appends an entry that
  repeats the current version number, so after a creation and one toggle the log's
  version numbers are 1, 1, which is not strictly increasing.
\<close>

theorem history_versions_repeat_after_toggle:
  "history_versions_after ex_ops ex_id = Some [1, 1] \<and> \<not> strictly_contiguous [1, 1]"
  by (simp add: history_versions_after_def run_ops_example ex_design_toggled_def
      ex_design_def strictly_contiguous_def upt_conv_Cons)

text \<open>
  C6, amended. In every store reachable from the empty one by accepted create, update,
  clone and toggle operations, every design's history log is not empty, starts at
  version 1, ends at the design's version counter, and from each entry to the next
  the version number stays the same or grows by exactly one. Every accepted operation
  keeps each stored design's previous log as a prefix of its new log: entries are only
  appended, never edited or removed.
\<close>

theorem history_append_only_nondecreasing:
  assumes "run_ops Map.empty ops = Some st"
  shows "(\<forall>i d. st i = Some d \<longrightarrow> history_ok d)
     \<and> (\<forall>x st' i d. apply_op st x = Some st' \<and> st i = Some d \<longrightarrow>
           (\<exists>d'. st' i = Some d' \<and> prefix (history d) (history d')))"
proof -
  have "\<forall>i d. (Map.empty :: db) i = Some d \<longrightarrow> history_ok d" by simp
  from run_ops_invariant [OF this assms] have "\<forall>i d. st i = Some d \<longrightarrow> history_ok d" .
  then show ?thesis using apply_op_appends by blast
qed

theorem history_append_only_nondecreasing_witness:
  "run_ops Map.empty ex_ops = Some [ex_id \<mapsto> ex_design_toggled]
   \<and> history_ok ex_design_toggled
   \<and> apply_op [ex_id \<mapsto> ex_design_toggled] (Update ex_now ex_id ex_user ex_forged_patch None)
       \<noteq> None
   \<and> (\<exists>st' d'. apply_op [ex_id \<mapsto> ex_design_toggled]
                   (Update ex_now ex_id ex_user ex_forged_patch None) = Some st'
         \<and> st' ex_id = Some d' \<and> prefix (history ex_design_toggled) (history d'))"
proof -
  note t = history_append_only_nondecreasing [OF run_ops_example]
  have l: "[ex_id \<mapsto> ex_design_toggled] ex_id = Some ex_design_toggled" by simp
  have o: "createdBy ex_design_toggled = ex_user"
    by (simp add: ex_design_toggled_def ex_design_def)
  have plain: "p_globalSettings ex_forged_patch = None" "p_components ex_forged_patch = None"
    by (simp_all add: ex_forged_patch_def empty_partial_def)
  from t l have ok: "history_ok ex_design_toggled" by blast
  obtain st' where a: "apply_op [ex_id \<mapsto> ex_design_toggled]
                   (Update ex_now ex_id ex_user ex_forged_patch None) = Some st'"
    using updateDesign_owner [of "[ex_id \<mapsto> ex_design_toggled]" ex_id ex_design_toggled
        ex_user ex_forged_patch ex_now None] l o plain
    by auto
  from t a l obtain d' where
    "st' ex_id = Some d' \<and> prefix (history ex_design_toggled) (history d')" by blast
  with a have "apply_op [ex_id \<mapsto> ex_design_toggled]
                   (Update ex_now ex_id ex_user ex_forged_patch None) = Some st'
         \<and> st' ex_id = Some d' \<and> prefix (history ex_design_toggled) (history d')"
    by simp
  then have "\<exists>st' d'. apply_op [ex_id \<mapsto> ex_design_toggled]
                   (Update ex_now ex_id ex_user ex_forged_patch None) = Some st'
         \<and> st' ex_id = Some d' \<and> prefix (history ex_design_toggled) (history d')"
    by - (rule exI, rule exI, assumption)
  then show ?thesis using run_ops_example ok a by simp
qed

subsection \<open>What an update checks\<close>

lemma cast_update_ok:
  "(cast_update p \<noteq> None) =
     ((case p_createdBy p of None \<Rightarrow> True | Some u \<Rightarrow> castObjectId u \<noteq> None)
      \<and> (case p_globalSettings p of None \<Rightarrow> True | Some g \<Rightarrow> cast_globalSettings g \<noteq> None)
      \<and> (case p_components p of None \<Rightarrow> True | Some cs \<Rightarrow> cast_components cs \<noteq> None))"
  by (auto simp: cast_update_def split: option.splits)

lemma accepted_design_iff:
  "(accepted_design r \<noteq> None) = (\<exists>store' d'. r = (store', Inr (Some d')))"
  by (cases r) (auto simp: accepted_design_def split: sum.splits option.splits)

text \<open>
  In the model an update is accepted exactly when the id resolves to a stored design,
  the caller owns it, and the schema can cast the global settings and the components
  of the patch.
\<close>

lemma updateDesign_accepts_iff:
  "(\<exists>store' d'. updateDesign store now i u p desc = (store', Inr (Some d'))) =
     (\<exists>k d. resolve_id store i = Some k \<and> store k = Some d \<and> createdBy d = u
        \<and> (case p_globalSettings p of None \<Rightarrow> True | Some g \<Rightarrow> cast_globalSettings g \<noteq> None)
        \<and> (case p_components p of None \<Rightarrow> True | Some cs \<Rightarrow> cast_components cs \<noteq> None))"
proof
  assume "\<exists>store' d'. updateDesign store now i u p desc = (store', Inr (Some d'))"
  then obtain store' d' where up: "updateDesign store now i u p desc = (store', Inr (Some d'))"
    by blast
  from updateDesign_call [OF up] obtain d where
    g: "getDesignById store i (Some u) = Inr (Some d)" and own: "createdBy d = u"
    and f: "findByIdAndUpdate store i
          (p\<lparr> p_createdBy := None, p_createdAt := None, p_history := None,
              p_updatedAt := Some (now 0), p_version := Some (version d + 1) \<rparr>)
          \<lparr> h_version = version d + 1, h_timestamp = now 1,
            h_changes = or_object desc ''Design update'' \<rparr> = (store', Inr (Some d'))"
    by blast
  from getDesignById_found [OF g] obtain k where
    k: "resolve_id store i = Some k" and sk: "store k = Some d" by blast
  from findByIdAndUpdate_accepted [OF f] have
    "cast_update (p\<lparr> p_createdBy := None, p_createdAt := None, p_history := None,
              p_updatedAt := Some (now 0), p_version := Some (version d + 1) \<rparr>) \<noteq> None"
    by auto
  then have "(case p_globalSettings p of None \<Rightarrow> True | Some g \<Rightarrow> cast_globalSettings g \<noteq> None)
        \<and> (case p_components p of None \<Rightarrow> True | Some cs \<Rightarrow> cast_components cs \<noteq> None)"
    unfolding cast_update_ok by simp
  with k sk own show "\<exists>k d. resolve_id store i = Some k \<and> store k = Some d \<and> createdBy d = u
        \<and> (case p_globalSettings p of None \<Rightarrow> True | Some g \<Rightarrow> cast_globalSettings g \<noteq> None)
        \<and> (case p_components p of None \<Rightarrow> True | Some cs \<Rightarrow> cast_components cs \<noteq> None)"
    by blast
next
  assume "\<exists>k d. resolve_id store i = Some k \<and> store k = Some d \<and> createdBy d = u
        \<and> (case p_globalSettings p of None \<Rightarrow> True | Some g \<Rightarrow> cast_globalSettings g \<noteq> None)
        \<and> (case p_components p of None \<Rightarrow> True | Some cs \<Rightarrow> cast_components cs \<noteq> None)"
  then obtain k d where k: "resolve_id store i = Some k" and sk: "store k = Some d"
    and own: "createdBy d = u"
    and ok: "(case p_globalSettings p of None \<Rightarrow> True | Some g \<Rightarrow> cast_globalSettings g \<noteq> None)
        \<and> (case p_components p of None \<Rightarrow> True | Some cs \<Rightarrow> cast_components cs \<noteq> None)"
    by blast
  have g: "getDesignById store i (Some u) = Inr (Some d)"
    using k sk own by (simp add: getDesignById_def findById_def)
  from ok have "cast_update (p\<lparr> p_createdBy := None, p_createdAt := None, p_history := None,
              p_updatedAt := Some (now 0), p_version := Some (version d + 1) \<rparr>) \<noteq> None"
    unfolding cast_update_ok by simp
  then obtain q where c: "cast_update (p\<lparr> p_createdBy := None, p_createdAt := None,
              p_history := None, p_updatedAt := Some (now 0),
              p_version := Some (version d + 1) \<rparr>) = Some q"
    by blast
  have h: "p_history q = None" using cast_update_keeps(4) [OF c] by simp
  show "\<exists>store' d'. updateDesign store now i u p desc = (store', Inr (Some d'))"
    using own by (simp add: updateDesign_def g Let_def findByIdAndUpdate_def k c sk h)
qed

text \<open>
  C1, as the specification states it, fails: the owner's update whose sections leave a
  gap between 0.3 and 0.4 is accepted and stored, and so is the owner's update whose
  only component names a section the design does not have.
\<close>

theorem updateDesign_accepts_gap_and_dangling_reference:
  "\<not> boundaries_tile ex_gap_sections
   \<and> map_option sections
        (accepted_design (updateDesign ex_store ex_now ex_id ex_user ex_gap_patch None))
       = Some ex_gap_sections
   \<and> map_option sections
        (fst (updateDesign ex_store ex_now ex_id ex_user ex_gap_patch None) ex_id)
       = Some ex_gap_sections
   \<and> has_dangling_section (sections ex_design) [ex_component]
   \<and> map_option (\<lambda>d. (sections d, components d))
        (accepted_design (updateDesign ex_store ex_now ex_id ex_user ex_dangling_patch None))
       = Some (sections ex_design, [ex_component])
   \<and> map_option (\<lambda>d. (sections d, components d))
        (fst (updateDesign ex_store ex_now ex_id ex_user ex_dangling_patch None) ex_id)
       = Some (sections ex_design, [ex_component])"
proof -
  have gap: "\<not> boundaries_tile ex_gap_sections"
    by (simp add: boundaries_tile_def ex_gap_sections_def)
  have dang: "has_dangling_section (sections ex_design) [ex_component]"
    by (simp add: has_dangling_section_def ex_design_def default_sections_def ex_oids_def
        ex_component_def)
  have cc: "cast_components [ex_component] = Some [ex_component]"
    by (simp add: cast_components_def cast_component_def ex_component_def
        castObjectId_examples or_object_def)
  have k: "resolve_id ex_store ex_id = Some ex_id"
    by (rule resolve_id_key [of ex_store ex_id ex_design, OF ex_store_lookup])
  have "\<exists>store' d'. updateDesign ex_store ex_now ex_id ex_user ex_gap_patch None
      = (store', Inr (Some d'))"
    unfolding updateDesign_accepts_iff
    using k ex_store_lookup ex_design_owner
    by (simp add: ex_gap_patch_def empty_partial_def)
  then obtain s1 d1 where u1: "updateDesign ex_store ex_now ex_id ex_user ex_gap_patch None
      = (s1, Inr (Some d1))"
    by blast
  have "\<exists>store' d'. updateDesign ex_store ex_now ex_id ex_user ex_dangling_patch None
      = (store', Inr (Some d'))"
    unfolding updateDesign_accepts_iff
    using k ex_store_lookup ex_design_owner
    by (simp add: ex_dangling_patch_def empty_partial_def cc)
  then obtain s2 d2 where u2: "updateDesign ex_store ex_now ex_id ex_user ex_dangling_patch None
      = (s2, Inr (Some d2))"
    by blast
  from updateDesign_accepted [OF u1] k ex_store_lookup
  have r1: "s1 = ex_store(ex_id \<mapsto> d1)" "sections d1 = ex_gap_sections"
    by (auto simp: ex_gap_patch_def empty_partial_def or_object_def)
  from updateDesign_accepted [OF u2] k ex_store_lookup
  have r2: "s2 = ex_store(ex_id \<mapsto> d2)" "sections d2 = sections ex_design"
    "components d2 = [ex_component]"
    by (auto simp: ex_dangling_patch_def empty_partial_def or_object_def cc)
  have a1: "map_option sections
        (accepted_design (updateDesign ex_store ex_now ex_id ex_user ex_gap_patch None))
       = Some ex_gap_sections"
    and a2: "map_option sections
        (fst (updateDesign ex_store ex_now ex_id ex_user ex_gap_patch None) ex_id)
       = Some ex_gap_sections"
    by (simp_all add: u1 accepted_design_def r1)
  have b1: "map_option (\<lambda>d. (sections d, components d))
        (accepted_design (updateDesign ex_store ex_now ex_id ex_user ex_dangling_patch None))
       = Some (sections ex_design, [ex_component])"
    and b2: "map_option (\<lambda>d. (sections d, components d))
        (fst (updateDesign ex_store ex_now ex_id ex_user ex_dangling_patch None) ex_id)
       = Some (sections ex_design, [ex_component])"
    by (simp_all add: u2 accepted_design_def r2)
  from gap a1 a2 dang b1 b2 show ?thesis by (intro conjI)
qed

text \<open>
  C1, amended. \<open>updateDesign\<close> validates neither boundary tiling nor references. On a
  design that exists, whether an update is accepted does not depend on the boundaries of
  the sections it submits nor on the section ids its components name: replacing them by
  any others changes nothing in the acceptance. An accepted update stores the design it
  returns, with the submitted sections under their ids and boundaries as given and the
  submitted components under their ids and section ids as given. An update that is not
  accepted leaves the store unchanged.
\<close>

theorem updateDesign_no_graph_validation:
  assumes "store i = Some d"
  shows "((accepted_design (updateDesign store now i u
              (p\<lparr> p_sections :=
                    map_option (map (\<lambda>s. s\<lparr> s_boundaries := f s \<rparr>)) (p_sections p),
                  p_components :=
                    map_option (map (\<lambda>c. c\<lparr> c_sectionId := g c \<rparr>)) (p_components p) \<rparr>)
              desc) = None)
          = (accepted_design (updateDesign store now i u p desc) = None))
     \<and> (\<forall>store' d'. updateDesign store now i u p desc = (store', Inr (Some d')) \<longrightarrow>
          store' = store(i \<mapsto> d')
          \<and> (\<forall>ss. p_sections p = Some ss \<longrightarrow>
                map s_id (sections d') = map s_id ss
                \<and> map s_boundaries (sections d') = map s_boundaries ss)
          \<and> (\<forall>cs. p_components p = Some cs \<longrightarrow>
                map c_id (components d') = map c_id cs
                \<and> map c_sectionId (components d') = map c_sectionId cs))
     \<and> (accepted_design (updateDesign store now i u p desc) = None \<longrightarrow>
          fst (updateDesign store now i u p desc) = store)"
proof (intro conjI allI impI)
  have "(case map_option (map (\<lambda>c. c\<lparr> c_sectionId := g c \<rparr>)) (p_components p) of
           None \<Rightarrow> True | Some cs \<Rightarrow> cast_components cs \<noteq> None)
      = (case p_components p of None \<Rightarrow> True | Some cs \<Rightarrow> cast_components cs \<noteq> None)"
    using cast_components_sectionId [of g] by (cases "p_components p") simp_all
  then have "(accepted_design (updateDesign store now i u
              (p\<lparr> p_sections :=
                    map_option (map (\<lambda>s. s\<lparr> s_boundaries := f s \<rparr>)) (p_sections p),
                  p_components :=
                    map_option (map (\<lambda>c. c\<lparr> c_sectionId := g c \<rparr>)) (p_components p) \<rparr>)
              desc) \<noteq> None)
          = (accepted_design (updateDesign store now i u p desc) \<noteq> None)"
    unfolding accepted_design_iff updateDesign_accepts_iff by simp
  then show "(accepted_design (updateDesign store now i u
              (p\<lparr> p_sections :=
                    map_option (map (\<lambda>s. s\<lparr> s_boundaries := f s \<rparr>)) (p_sections p),
                  p_components :=
                    map_option (map (\<lambda>c. c\<lparr> c_sectionId := g c \<rparr>)) (p_components p) \<rparr>)
              desc) = None)
          = (accepted_design (updateDesign store now i u p desc) = None)"
    by blast
next
  fix store' d'
  assume up: "updateDesign store now i u p desc = (store', Inr (Some d'))"
  from updateDesign_result(2) [OF assms up] show "store' = store(i \<mapsto> d')" .
  {
    fix ss assume "p_sections p = Some ss"
    with updateDesign_result(8) [OF assms up] have "sections d' = ss"
      by (simp add: or_object_def)
    then show "map s_id (sections d') = map s_id ss" 
      and "map s_boundaries (sections d') = map s_boundaries ss"
      by simp_all
  }
  {
    fix cs assume cs: "p_components p = Some cs"
    from updateDesign_accepted [OF up] cs have "cast_components cs = Some (components d')"
      by auto
    from cast_components_keeps [OF this]
    show "map c_id (components d') = map c_id cs" 
      and "map c_sectionId (components d') = map c_sectionId cs"
      by simp_all
  }
next
  assume "accepted_design (updateDesign store now i u p desc) = None"
  then show "fst (updateDesign store now i u p desc) = store"
    by (rule updateDesign_refused)
qed

theorem updateDesign_no_graph_validation_witness:
  "ex_store ex_id = Some ex_design
   \<and> accepted_design (updateDesign ex_store ex_now ex_id ex_user
         (ex_dangling_patch\<lparr> p_components :=
             Some [ex_component\<lparr> c_sectionId := ''650000000000000000000001'' \<rparr>] \<rparr>) None)
       \<noteq> None
   \<and> (\<exists>d'. updateDesign ex_store ex_now ex_id ex_user ex_dangling_patch None
             = (ex_store(ex_id \<mapsto> d'), Inr (Some d'))
        \<and> map c_sectionId (components d') = [''650000000000000000000099''])
   \<and> accepted_design
        (updateDesign ex_store ex_now ex_id ''64a000000000000000000002'' ex_gap_patch None)
       = None
   \<and> fst (updateDesign ex_store ex_now ex_id ''64a000000000000000000002'' ex_gap_patch None)
       = ex_store"
proof -
  note t = updateDesign_no_graph_validation
             [where store = ex_store and i = ex_id and d = ex_design and now = ex_now
                and u = ex_user and p = ex_dangling_patch and f = "\<lambda>s. s_boundaries s"
                and g = "\<lambda>c. ''650000000000000000000001''" and desc = None,
              OF ex_store_lookup]
  note t2 = updateDesign_no_graph_validation
             [where store = ex_store and i = ex_id and d = ex_design and now = ex_now
                and u = "''64a000000000000000000002''" and p = ex_gap_patch
                and f = "\<lambda>s. s_boundaries s" and g = "\<lambda>c. c_sectionId c"
                and desc = None,
              OF ex_store_lookup]
  have cc: "cast_components [ex_component] = Some [ex_component]"
    by (simp add: cast_components_def cast_component_def ex_component_def
        castObjectId_examples or_object_def)
  have k: "resolve_id ex_store ex_id = Some ex_id"
    by (rule resolve_id_key [of ex_store ex_id ex_design, OF ex_store_lookup])
  have "\<exists>store' d'. updateDesign ex_store ex_now ex_id ex_user ex_dangling_patch None
      = (store', Inr (Some d'))"
    unfolding updateDesign_accepts_iff
    using k ex_store_lookup ex_design_owner
    by (simp add: ex_dangling_patch_def empty_partial_def cc)
  then obtain s2 d2 where u2: "updateDesign ex_store ex_now ex_id ex_user ex_dangling_patch None
      = (s2, Inr (Some d2))"
    by blast
  have pc: "p_components ex_dangling_patch = Some [ex_component]"
    "p_sections ex_dangling_patch = None"
    by (simp_all add: ex_dangling_patch_def empty_partial_def)
  from t u2 pc have s2: "s2 = ex_store(ex_id \<mapsto> d2)"
    and m: "map c_sectionId (components d2) = [''650000000000000000000099'']"
    by (simp_all add: ex_component_def)
  have acc: "accepted_design (updateDesign ex_store ex_now ex_id ex_user ex_dangling_patch None)
      \<noteq> None"
    by (simp add: u2 accepted_design_def)
  have e: "ex_dangling_patch\<lparr> p_sections := None, p_components :=
             Some [ex_component\<lparr> c_sectionId := ''650000000000000000000001'' \<rparr>] \<rparr>
      = ex_dangling_patch\<lparr> p_components :=
             Some [ex_component\<lparr> c_sectionId := ''650000000000000000000001'' \<rparr>] \<rparr>"
    by (simp add: ex_dangling_patch_def empty_partial_def)
  have 1: "accepted_design (updateDesign ex_store ex_now ex_id ex_user
         (ex_dangling_patch\<lparr> p_components :=
             Some [ex_component\<lparr> c_sectionId := ''650000000000000000000001'' \<rparr>] \<rparr>) None)
       \<noteq> None"
    using t acc by (simp add: pc e)
  have 2: "\<exists>d'. updateDesign ex_store ex_now ex_id ex_user ex_dangling_patch None
             = (ex_store(ex_id \<mapsto> d'), Inr (Some d'))
        \<and> map c_sectionId (components d') = [''650000000000000000000099'']"
    using u2 s2 m by simp
  have 3: "accepted_design
        (updateDesign ex_store ex_now ex_id ''64a000000000000000000002'' ex_gap_patch None)
       = None"
    by (simp add: updateDesign_def getDesignById_def findById_key [of ex_store ex_id ex_design, OF ex_store_lookup])
       (simp add: ex_design_def ex_user_def accepted_design_def)
  from t2 3 have 4:
    "fst (updateDesign ex_store ex_now ex_id ''64a000000000000000000002'' ex_gap_patch None)
       = ex_store"
    by blast
  from ex_store_lookup 1 2 3 4 show ?thesis by (intro conjI)
qed

subsection \<open>What a clone records\<close>

text \<open>
  C3 at the example store, which is the store a first \<open>createDesign\<close> leaves: the owner
  clones the example design. The clone is stored, and its single history entry is the
  creation entry of \<open>createDesign\<close>; the provenance entry that \<open>cloneDesign\<close> builds
  (\<open>Cloned from design\<close> and the source id) is not in the log.
\<close>

theorem cloneDesign_history_lacks_provenance:
  "createDesign Map.empty ex_now ex_oids ex_user ex_data = (ex_store, Inr ex_design)
   \<and> map_option history
       (accepted_design (cloneDesign ex_store ex_now ex_clone_oids ex_id ex_user None))
       = Some [\<lparr> h_version = 1, h_timestamp = ex_now 5,
                 h_changes = ''Initial design creation'' \<rparr>]
   \<and> ''Initial design creation'' \<noteq> ''Cloned from design '' @ ex_id"
proof -
  have h: "map_option history
       (accepted_design (cloneDesign ex_store ex_now ex_clone_oids ex_id ex_user None))
       = Some (history ex_clone)"
    by (simp add: cloneDesign_example accepted_design_def)
  have c: "history ex_clone = [\<lparr> h_version = 1, h_timestamp = ex_now 5,
                 h_changes = ''Initial design creation'' \<rparr>]"
    by (simp add: ex_clone_def)
  have n: "''Initial design creation'' \<noteq> ''Cloned from design '' @ ex_id"
    by simp
  from createDesign_example h n show ?thesis by (simp add: c)
qed

section \<open>Properties of the template export\<close>

subsection \<open>Formats\<close>

lemma toLowerCase_supported: "f \<in> set supported_formats \<Longrightarrow> toLowerCase f = f"
  by (auto simp: supported_formats_def toLowerCase_def)

lemma isMongoId_ex_id: "isMongoId ex_id"
  by (simp add: isMongoId_def isHexadecimal_def isHexDigit_def ex_id_def)

text \<open>
  The validation chain lets through a prefixed string that the store then refuses: such
  a request gets past validation and is answered with status 500.
\<close>

lemma isMongoId_prefixed:
  "isMongoId ''0x500000000000000000004a'' \<and> castObjectId ''0x500000000000000000004a'' = None
   \<and> template_route ex_store
        \<lparr> t_params_id = ''0x500000000000000000004a'', t_query_format = Some ''svg'', t_user_id = ex_user \<rparr> =
       (\<lparr> res_status = 500, res_body = Message ''Error generating template'' \<rparr>,
        [GetDesignById])"
proof -
  have m: "isMongoId ''0x500000000000000000004a''"
    by (simp add: isMongoId_def isHexadecimal_def isHexDigit_def toLowerCase_def)
  have c: "castObjectId ''0x500000000000000000004a'' = None"
    by (simp add: castObjectId_def isHexDigit_def)
  have n: "ex_store ''0x500000000000000000004a'' = None"
    by (simp add: ex_store_def ex_id_def)
  have g: "getDesignById ex_store ''0x500000000000000000004a'' (Some ex_user) = Inl (CastError ''_id'')"
    using n c by (simp add: getDesignById_malformed)
  have v: "generateTemplateValidation
      \<lparr> t_params_id = ''0x500000000000000000004a'', t_query_format = Some ''svg'', t_user_id = ex_user \<rparr> = []"
    using m by (simp add: generateTemplateValidation_def supported_formats_def)
  have r: "template_route ex_store
        \<lparr> t_params_id = ''0x500000000000000000004a'', t_query_format = Some ''svg'', t_user_id = ex_user \<rparr> =
       (\<lparr> res_status = 500, res_body = Message ''Error generating template'' \<rparr>,
        [GetDesignById])"
    unfolding template_route_def v by (simp add: generateTemplate_def Let_def g)
  from m c r show ?thesis by (intro conjI)
qed

lemma validation_passes:
  "isMongoId i \<Longrightarrow> f \<in> set supported_formats \<Longrightarrow>
     generateTemplateValidation \<lparr> t_params_id = i, t_query_format = Some f, t_user_id = u \<rparr> = []"
  by (simp add: generateTemplateValidation_def)

lemma ex_store_readable: "getDesignById ex_store ex_id (Some ex_user) = Inr (Some ex_design)"
  by (rule getDesignById_owner [of ex_store ex_id ex_design ex_user,
        OF ex_store_lookup ex_design_owner])

text \<open>
  C7. A request whose format is not one of \<open>svg\<close>, \<open>pdf\<close>, \<open>silhouette\<close>, \<open>cricut\<close> is
  answered with status 400 and a validation error \<open>Invalid format\<close>, and no service is
  called for it: the design is not read, no vector document is built and no encoder
  runs.
\<close>

theorem unsupported_format_rejected_before_vectorization:
  assumes "t_query_format req = Some f" and "f \<notin> set supported_formats"
  shows "\<exists>errs. template_route store req = (\<lparr> res_status = 400, res_body = Errors errs \<rparr>, [])
     \<and> ''Invalid format'' \<in> set errs"
  using assms
  by (simp add: template_route_def generateTemplate_def generateTemplateValidation_def)

theorem unsupported_format_rejected_before_vectorization_witness:
  "t_query_format ex_bad_request = Some ''dxf'' \<and> ''dxf'' \<notin> set supported_formats
   \<and> (\<exists>errs. template_route ex_store ex_bad_request
                = (\<lparr> res_status = 400, res_body = Errors errs \<rparr>, [])
         \<and> ''Invalid format'' \<in> set errs)"
proof -
  have q: "t_query_format ex_bad_request = Some ''dxf''"
    by (simp add: ex_bad_request_def)
  have n: "''dxf'' \<notin> set supported_formats"
    by (simp add: supported_formats_def)
  from unsupported_format_rejected_before_vectorization [OF q n, of ex_store] q n
  show ?thesis by (intro conjI)
qed

text \<open>
  The handler's own \<open>Unsupported format\<close> answer comes after the vector document is
  built; on the route it is never given, since the validation chain has already
  refused every format that would reach it.
\<close>

lemma handler_default_branch_after_vectorization:
  "generateTemplate ex_store [] ex_bad_request =
     (\<lparr> res_status = 400, res_body = Message ''Unsupported format'' \<rparr>,
      [GetDesignById, GenerateSvgTemplate])"
  by (simp add: generateTemplate_def ex_bad_request_def ex_store_readable Let_def or_string_def
      toLowerCase_def generateSvgTemplate_def)

lemma handler_default_branch_unreachable:
  "res_body (fst (template_route store req)) \<noteq> Message ''Unsupported format''"
proof (cases "generateTemplateValidation req = []")
  case False
  then show ?thesis by (simp add: template_route_def generateTemplate_def)
next
  case True
  then have "t_query_format req = None
      \<or> (\<exists>f. t_query_format req = Some f \<and> f \<in> set supported_formats)"
    by (auto simp: generateTemplateValidation_def split: option.splits if_splits)
  then have "toLowerCase (or_string (t_query_format req) ''svg'') \<in> set supported_formats"
    by (auto simp: or_string_def toLowerCase_supported)
       (auto simp: supported_formats_def toLowerCase_def)
  then show ?thesis using True
    by (auto simp: template_route_def generateTemplate_def Let_def supported_formats_def
        generateSvgTemplate_def generatePdfTemplate_def generateSilhouetteStudioFile_def
        generateCricutFile_def send_file_def split: sum.splits option.splits)
qed

subsection \<open>Vectorization\<close>

lemma generateTemplate_depends_on_name:
  assumes "getDesignById store i (Some u) = Inr (Some d)"
    and "getDesignById store' i (Some u) = Inr (Some d')" and "d_name d' = d_name d"
  shows "generateTemplate store' errs \<lparr> t_params_id = i, t_query_format = q, t_user_id = u \<rparr> =
         generateTemplate store errs \<lparr> t_params_id = i, t_query_format = q, t_user_id = u \<rparr>"
  by (simp add: generateTemplate_def assms generateSvgTemplate_def Let_def split: sum.splits)

text \<open>
  For a supported format the handler builds the vector document; it answers with status
  200 when the design's name can stand in a header, and with status 500 when it cannot.
\<close>

lemma generateTemplate_supported:
  assumes "getDesignById store i (Some u) = Inr (Some d)" and "f \<in> set supported_formats"
  shows "res_status (fst (generateTemplate store []
            \<lparr> t_params_id = i, t_query_format = Some f, t_user_id = u \<rparr>)) =
           (if list_all header_char_ok (d_name d) then 200 else 500)"
    and "GenerateSvgTemplate \<in> set (snd (generateTemplate store []
            \<lparr> t_params_id = i, t_query_format = Some f, t_user_id = u \<rparr>))"
proof -
  from assms(2) consider "f = ''svg''" | "f = ''pdf''" | "f = ''silhouette''" | "f = ''cricut''"
    by (auto simp: supported_formats_def)
  then have "res_status (fst (generateTemplate store []
            \<lparr> t_params_id = i, t_query_format = Some f, t_user_id = u \<rparr>)) =
           (if list_all header_char_ok (d_name d) then 200 else 500)
     \<and> GenerateSvgTemplate \<in> set (snd (generateTemplate store []
            \<lparr> t_params_id = i, t_query_format = Some f, t_user_id = u \<rparr>))"
    by cases
      (simp_all add: generateTemplate_def assms(1) Let_def or_string_def toLowerCase_def
        generateSvgTemplate_def generatePdfTemplate_def generateSilhouetteStudioFile_def
        generateCricutFile_def send_file_def attachment_def header_char_ok_def)
  then show "res_status (fst (generateTemplate store []
            \<lparr> t_params_id = i, t_query_format = Some f, t_user_id = u \<rparr>)) =
           (if list_all header_char_ok (d_name d) then 200 else 500)"
    and "GenerateSvgTemplate \<in> set (snd (generateTemplate store []
            \<lparr> t_params_id = i, t_query_format = Some f, t_user_id = u \<rparr>))"
    by simp_all
qed

text \<open>
  C8, as the specification states it, fails: the example design has no components, and
  its \<open>svg\<close> export is answered with status 200 and the placeholder document.
\<close>

theorem export_of_empty_design_succeeds:
  "components ex_design = []
   \<and> generateSvgTemplate ex_design = Inr (svg_head @ ''Untitled Design'' @ svg_tail)
   \<and> template_route ex_store ex_template_request =
       (\<lparr> res_status = 200,
          res_body = File ''image/svg+xml'' (attachment ''Untitled Design'' ''.svg'')
                       (svg_head @ ''Untitled Design'' @ svg_tail) \<rparr>,
        [GetDesignById, GenerateSvgTemplate])"
proof -
  have v: "generateTemplateValidation ex_template_request = []"
    using isMongoId_ex_id
    by (simp add: generateTemplateValidation_def ex_template_request_def supported_formats_def)
  have n: "d_name ex_design = ''Untitled Design''" "components ex_design = []"
    by (simp_all add: ex_design_def)
  have h: "list_all header_char_ok (attachment ''Untitled Design'' ''.svg'')"
    by (simp add: attachment_def header_char_ok_def)
  show ?thesis
    by (simp add: template_route_def v)
       (simp add: generateTemplate_def ex_template_request_def ex_store_readable n Let_def
          or_string_def toLowerCase_def generateSvgTemplate_def send_file_def h)
qed

text \<open>
  C8, amended. For every design, with components or without, vectorization succeeds
  and yields the fixed placeholder document around the design's name; it never fails
  for want of components and does not read them. So a template export of a stored
  design the caller may read, with a valid id and a supported format, builds the vector
  document, and its answer is the same whatever components the stored design has.
\<close>

theorem template_export_ignores_components:
  assumes "store i = Some d" and "getDesignById store i (Some u) = Inr (Some d)"
    and "isMongoId i" and "f \<in> set supported_formats"
  shows "generateSvgTemplate d = Inr (svg_head @ d_name d @ svg_tail)
     \<and> generateSvgTemplate (d\<lparr> components := cs \<rparr>) = generateSvgTemplate d
     \<and> GenerateSvgTemplate \<in> set (snd (template_route store
            \<lparr> t_params_id = i, t_query_format = Some f, t_user_id = u \<rparr>))
     \<and> template_route (store(i \<mapsto> d\<lparr> components := cs \<rparr>))
            \<lparr> t_params_id = i, t_query_format = Some f, t_user_id = u \<rparr>
         = template_route store \<lparr> t_params_id = i, t_query_format = Some f, t_user_id = u \<rparr>"
proof -
  have g: "getDesignById (store(i \<mapsto> d\<lparr> components := cs \<rparr>)) i (Some u)
      = Inr (Some (d\<lparr> components := cs \<rparr>))"
    using assms(1,2)
    by (auto simp: getDesignById_def findById_def resolve_id_def split: if_splits)
  have same: "template_route (store(i \<mapsto> d\<lparr> components := cs \<rparr>))
            \<lparr> t_params_id = i, t_query_format = Some f, t_user_id = u \<rparr>
         = template_route store \<lparr> t_params_id = i, t_query_format = Some f, t_user_id = u \<rparr>"
    unfolding template_route_def
    by (rule generateTemplate_depends_on_name [OF assms(2) g]) simp
  show ?thesis
    using generateTemplate_supported(2) [OF assms(2,4)] same
    by (simp add: template_route_def validation_passes [OF assms(3,4)] generateSvgTemplate_def)
qed

theorem template_export_ignores_components_witness:
  "ex_store ex_id = Some ex_design
   \<and> getDesignById ex_store ex_id (Some ex_user) = Inr (Some ex_design) \<and> isMongoId ex_id
   \<and> ''pdf'' \<in> set supported_formats
   \<and> generateSvgTemplate (ex_design\<lparr> components := [ex_component] \<rparr>)
       = generateSvgTemplate ex_design
   \<and> GenerateSvgTemplate \<in> set (snd (template_route ex_store
          \<lparr> t_params_id = ex_id, t_query_format = Some ''pdf'', t_user_id = ex_user \<rparr>))
   \<and> template_route (ex_store(ex_id \<mapsto> ex_design\<lparr> components := [ex_component] \<rparr>))
          \<lparr> t_params_id = ex_id, t_query_format = Some ''pdf'', t_user_id = ex_user \<rparr>
       = template_route ex_store
          \<lparr> t_params_id = ex_id, t_query_format = Some ''pdf'', t_user_id = ex_user \<rparr>"
proof -
  have p: "''pdf'' \<in> set supported_formats" by (simp add: supported_formats_def)
  from template_export_ignores_components
         [OF ex_store_lookup ex_store_readable isMongoId_ex_id p, of "[ex_component]"]
    ex_store_lookup ex_store_readable isMongoId_ex_id p
  show ?thesis by (intro conjI) simp_all
qed

subsection \<open>Persisting the template\<close>

lemma generateAndSaveTemplate_local:
  assumes "\<not> s3_configured env"
    and "env_writable env
           (path_join (env_tmpdir env) (env_uuid env 0 @ ''_'' @ designId @ ''.svg''))"
  shows "generateAndSaveTemplate fs env designId design =
     (fs(path_join (env_tmpdir env) (env_uuid env 0 @ ''_'' @ designId @ ''.svg'')
           \<mapsto> svg_head @ d_name design @ svg_tail),
      Inr (path_join (env_tmpdir env) (env_uuid env 0 @ ''_'' @ designId @ ''.svg'')))"
  using assms
  by (simp add: generateAndSaveTemplate_def generateSvgTemplate_def saveSvgToTemp_def
      writeFile_def Let_def)

lemma generateAndSaveTemplate_upload_rejected:
  assumes "s3_configured env"
    and "env_writable env
           (path_join (env_tmpdir env) (env_uuid env 0 @ ''_'' @ designId @ ''.svg''))"
    and "env_s3_upload env
           \<lparr> s3_Bucket = aws_s3Bucket (env_aws env),
             s3_Key = ''templates/'' @ designId @ ''/'' @ env_uuid env 1 @ ''.svg'',
             s3_Body = svg_head @ d_name design @ svg_tail,
             s3_ContentType = getContentType
               (path_join (env_tmpdir env) (env_uuid env 0 @ ''_'' @ designId @ ''.svg'')),
             s3_ACL = ''private'' \<rparr> = None"
  shows "generateAndSaveTemplate fs env designId design =
     (fs(path_join (env_tmpdir env) (env_uuid env 0 @ ''_'' @ designId @ ''.svg'')
           \<mapsto> svg_head @ d_name design @ svg_tail),
      Inl (Error ''Failed to generate and save template''))"
  using assms
  by (simp add: generateAndSaveTemplate_def generateSvgTemplate_def saveSvgToTemp_def
      writeFile_def Let_def uploadFileToS3_def readFile_def)

text \<open>
  With storage configured the call always throws: a rejected upload is rethrown, and
  after an accepted upload, which has already unlinked the temporary file, the second
  unlink of the same path fails.
\<close>

lemma generateAndSaveTemplate_configured_fails:
  assumes "s3_configured env"
  shows "snd (generateAndSaveTemplate fs env designId design) =
     Inl (Error ''Failed to generate and save template'')"
  using assms
  by (simp add: generateAndSaveTemplate_def generateSvgTemplate_def saveSvgToTemp_def
      writeFile_def Let_def uploadFileToS3_def readFile_def unlink_def
      split: option.splits)

lemma ex_env_facts:
  "s3_configured ex_env_s3_up" "s3_configured ex_env_s3_down" "\<not> s3_configured ex_env_local"
  "path_join (env_tmpdir ex_env_local) (env_uuid ex_env_local 0 @ ''_'' @ ex_id @ ''.svg'')
     = ex_temp_path"
  "path_join (env_tmpdir ex_env_s3_down) (env_uuid ex_env_s3_down 0 @ ''_'' @ ex_id @ ''.svg'')
     = ex_temp_path"
  "env_writable ex_env_local p" "env_writable ex_env_s3_down p"
  "env_s3_upload ex_env_s3_down q = None"
  by (simp_all add: s3_configured_def s3_client_def ex_env_s3_up_def ex_env_s3_down_def
      ex_env_local_def path_join_def ex_id_def ex_temp_path_def)

text \<open>
  C9, as the specification states it, fails: with storage configured, the call throws
  when the upload is rejected, and it throws as well when the upload is accepted.
\<close>

theorem storage_failure_is_fatal:
  "s3_configured ex_env_s3_down
   \<and> snd (generateAndSaveTemplate Map.empty ex_env_s3_down ex_id ex_design)
       = Inl (Error ''Failed to generate and save template'')
   \<and> s3_configured ex_env_s3_up
   \<and> snd (uploadFileToS3 [ex_temp_path \<mapsto> svg_head @ d_name ex_design @ svg_tail]
            ex_env_s3_up ex_temp_path ''templates/650000000000000000000004/5d2f9c3e.svg'')
       = Inr (Some ''https://s3.example/rubyrokit-templates/templates/650000000000000000000004/5d2f9c3e.svg'')
   \<and> snd (generateAndSaveTemplate Map.empty ex_env_s3_up ex_id ex_design)
       = Inl (Error ''Failed to generate and save template'')"
proof -
  have u: "snd (uploadFileToS3 [ex_temp_path \<mapsto> svg_head @ d_name ex_design @ svg_tail]
            ex_env_s3_up ex_temp_path ''templates/650000000000000000000004/5d2f9c3e.svg'')
       = Inr (Some ''https://s3.example/rubyrokit-templates/templates/650000000000000000000004/5d2f9c3e.svg'')"
    by (simp add: uploadFileToS3_def ex_env_facts(1) readFile_def)
       (simp add: ex_env_s3_up_def unlink_def)
  from ex_env_facts(1,2) u
    generateAndSaveTemplate_configured_fails [OF ex_env_facts(2), of Map.empty ex_id ex_design]
    generateAndSaveTemplate_configured_fails [OF ex_env_facts(1), of Map.empty ex_id ex_design]
  show ?thesis by (intro conjI)
qed

text \<open>
  C9, amended. Where the temporary file can be written: when storage is not configured,
  the call succeeds and returns the path of the temporary file, which stays in place;
  when storage is configured and the upload is rejected, the call fails with
  \<open>Failed to generate and save template\<close> and leaves the temporary file behind.
\<close>

theorem generateAndSaveTemplate_storage_outcomes:
  assumes "env_writable env
             (path_join (env_tmpdir env) (env_uuid env 0 @ ''_'' @ designId @ ''.svg''))"
  shows "(\<not> s3_configured env \<longrightarrow>
           generateAndSaveTemplate fs env designId design =
             (fs(path_join (env_tmpdir env) (env_uuid env 0 @ ''_'' @ designId @ ''.svg'')
                   \<mapsto> svg_head @ d_name design @ svg_tail),
              Inr (path_join (env_tmpdir env) (env_uuid env 0 @ ''_'' @ designId @ ''.svg''))))
     \<and> (s3_configured env
          \<and> env_s3_upload env
               \<lparr> s3_Bucket = aws_s3Bucket (env_aws env),
                 s3_Key = ''templates/'' @ designId @ ''/'' @ env_uuid env 1 @ ''.svg'',
                 s3_Body = svg_head @ d_name design @ svg_tail,
                 s3_ContentType = getContentType
                   (path_join (env_tmpdir env) (env_uuid env 0 @ ''_'' @ designId @ ''.svg'')),
                 s3_ACL = ''private'' \<rparr> = None \<longrightarrow>
           generateAndSaveTemplate fs env designId design =
             (fs(path_join (env_tmpdir env) (env_uuid env 0 @ ''_'' @ designId @ ''.svg'')
                   \<mapsto> svg_head @ d_name design @ svg_tail),
              Inl (Error ''Failed to generate and save template'')))"
  using assms generateAndSaveTemplate_local [of env designId fs design]
    generateAndSaveTemplate_upload_rejected [of env designId design fs]
  by blast

theorem generateAndSaveTemplate_storage_outcomes_witness:
  "env_writable ex_env_local ex_temp_path \<and> \<not> s3_configured ex_env_local
   \<and> generateAndSaveTemplate Map.empty ex_env_local ex_id ex_design =
       ([ex_temp_path \<mapsto> svg_head @ d_name ex_design @ svg_tail], Inr ex_temp_path)
   \<and> env_writable ex_env_s3_down ex_temp_path \<and> s3_configured ex_env_s3_down
   \<and> generateAndSaveTemplate Map.empty ex_env_s3_down ex_id ex_design =
       ([ex_temp_path \<mapsto> svg_head @ d_name ex_design @ svg_tail],
        Inl (Error ''Failed to generate and save template''))"
proof -
  have w1: "env_writable ex_env_local
      (path_join (env_tmpdir ex_env_local) (env_uuid ex_env_local 0 @ ''_'' @ ex_id @ ''.svg''))"
    and w2: "env_writable ex_env_s3_down
      (path_join (env_tmpdir ex_env_s3_down)
         (env_uuid ex_env_s3_down 0 @ ''_'' @ ex_id @ ''.svg''))"
    by (rule ex_env_facts)+
  from generateAndSaveTemplate_storage_outcomes [OF w1, of Map.empty ex_design]
    ex_env_facts(4)
  have 1: "generateAndSaveTemplate Map.empty ex_env_local ex_id ex_design =
       ([ex_temp_path \<mapsto> svg_head @ d_name ex_design @ svg_tail], Inr ex_temp_path)"
    by (simp add: ex_env_facts(3))
  from generateAndSaveTemplate_storage_outcomes [OF w2, of Map.empty ex_design]
    ex_env_facts(5)
  have 2: "generateAndSaveTemplate Map.empty ex_env_s3_down ex_id ex_design =
       ([ex_temp_path \<mapsto> svg_head @ d_name ex_design @ svg_tail],
        Inl (Error ''Failed to generate and save template''))"
    by (simp add: ex_env_facts(2,8))
  from 1 2 ex_env_facts(2,3,6,7) show ?thesis by (intro conjI)
qed

end
